theory Spec2Isabelle
  imports Main "HOL-Library.Word"
begin

unbundle bit_operations_syntax

section \<open>Bytes, sizes and the external primitives\<close>

text \<open>
  The enclave (src/enclave.c) works on fixed-size byte arrays: \<open>wskey\<close> and \<open>wshash\<close> are
  \<open>uint8_t[32]\<close>. An array is modelled as the list of its bytes; a \<open>uint32_t\<close> is a
  \<open>32 word\<close>. The sizes are the ones of the WireGuard protocol (spec section 3).
\<close>

type_synonym byte = "8 word"
type_synonym bytes = "byte list"

abbreviation KEYLEN :: nat where "KEYLEN \<equiv> 32"
abbreviation HASHLEN :: nat where "HASHLEN \<equiv> 32"
abbreviation TAGLEN :: nat where "TAGLEN \<equiv> 16"
abbreviation BLAKE2S_BLOCKBYTES :: nat where "BLAKE2S_BLOCKBYTES \<equiv> 64"
abbreviation BLAKE2S_KEYBYTES :: nat where "BLAKE2S_KEYBYTES \<equiv> 32"

text \<open>
  The library functions the enclave calls and whose code is not part of it. They are
  parameters of the model:
  \<^item> \<open>blake2s\<close>: \<open>blake2s_init\<close> with a 32-byte output, the \<open>blake2s_update\<close> calls (their
    inputs concatenated) and \<open>blake2s_final\<close>;
  \<^item> \<open>X25519\<close>: the return value (0 on failure) and the shared secret written;
  \<^item> \<open>EVP_open\<close>, \<open>EVP_seal\<close>: \<open>EVP_AEAD_CTX_init\<close> followed by \<open>EVP_AEAD_CTX_open\<close>
    (\<open>EVP_AEAD_CTX_seal\<close>) with the all-zero nonce, from key, additional data and input;
    \<open>None\<close> when one of the two calls returns 0, else the bytes written to the output;
  \<^item> \<open>ws_mac\<close>: the keyed BLAKE2s MAC of a message prefix under a key, \<open>None\<close> when it
    returns -1;
  \<^item> \<open>makemsgconnreq\<close>: the connect request built from the foreign and the local socket
    name, \<open>None\<close> when it returns -1.
\<close>

record prims =
  blake2s :: "bytes \<Rightarrow> bytes"
  X25519 :: "bytes \<Rightarrow> bytes \<Rightarrow> int \<times> bytes"
  EVP_open :: "bytes \<Rightarrow> bytes \<Rightarrow> bytes \<Rightarrow> bytes option"
  EVP_seal :: "bytes \<Rightarrow> bytes \<Rightarrow> bytes \<Rightarrow> bytes option"
  ws_mac :: "bytes \<Rightarrow> bytes \<Rightarrow> bytes option"
  makemsgconnreq :: "bytes \<Rightarrow> bytes \<Rightarrow> bytes option"

text \<open>
  \<open>memcmp\<close> over the first \<open>n\<close> bytes of two buffers: the difference of the first pair of
  bytes that differ, as unsigned values, 0 when there is none. Every call of the model
  passes buffers that hold at least \<open>n\<close> bytes; the comparison stops where a list ends.
\<close>

fun memcmp :: "bytes \<Rightarrow> bytes \<Rightarrow> nat \<Rightarrow> int" where
  "memcmp (x # xs) (y # ys) (Suc n) = (if x = y then memcmp xs ys n else uint x - uint y)"
| "memcmp _ _ _ = 0"

text \<open>
  \<open>memcpy(dst, src, n)\<close> into a buffer that holds \<open>dst\<close>: the first \<open>n\<close> bytes are
  replaced, the rest of the buffer keeps its content.
\<close>

definition memcpy :: "bytes \<Rightarrow> bytes \<Rightarrow> nat \<Rightarrow> bytes" where
  "memcpy dst src n = take n src @ drop n dst"

text \<open>Modelled from the spec: \<open>ws_hash\<close> (wiresep.c is not part of the sources), the
  BLAKE2s-256 hash over the concatenation of the iovec segments, no key.\<close>

definition ws_hash :: "prims \<Rightarrow> bytes list \<Rightarrow> bytes" where
  "ws_hash pr iov = blake2s pr (concat iov)"

text \<open>Modelled from the spec: \<open>ws_validmac\<close> (wiresep.c is not part of the sources):
  the mac given is the keyed BLAKE2s MAC of the message prefix under the key.\<close>

definition ws_validmac :: "prims \<Rightarrow> bytes \<Rightarrow> bytes \<Rightarrow> bytes \<Rightarrow> bool" where
  "ws_validmac pr mac data key = (ws_mac pr data key = Some mac)"

section \<open>Key derivation\<close>

text \<open>\<open>hmac\<close>: the key is copied into a zeroed 64-byte block, which is xored with the
  inner and then the outer pad.\<close>

definition hmac :: "prims \<Rightarrow> bytes list \<Rightarrow> bytes \<Rightarrow> bytes" where
  "hmac pr iovin key =
    (let x_key = take BLAKE2S_KEYBYTES key @ replicate (BLAKE2S_BLOCKBYTES - BLAKE2S_KEYBYTES) 0;
         x_key1 = map (\<lambda>b. b XOR 0x36) x_key;
         i_hash = blake2s pr (x_key1 @ concat iovin);
         x_key2 = map (\<lambda>b. b XOR (0x5c XOR 0x36)) x_key1
     in blake2s pr (x_key2 @ i_hash))"

text \<open>
  The loop of \<open>kdfn\<close>, \<open>for (t = 2; t <= iovoutlen; t++)\<close>: output \<open>t\<close> is the HMAC under
  \<open>t0\<close> of output \<open>t - 1\<close> followed by the byte \<open>t\<close>. The outputs are collected in a list,
  output \<open>t\<close> at index \<open>t - 1\<close>. The counter is a \<open>uint8_t\<close>: after \<open>t = 255\<close> it wraps to 0
  and \<open>iovout[-2]\<close> would be read, so the loop gives no result for \<open>iovoutlen = 255\<close>
  (the enclave derives one, two or three keys).
\<close>

function kdfn_loop :: "prims \<Rightarrow> bytes \<Rightarrow> nat \<Rightarrow> nat \<Rightarrow> bytes list \<Rightarrow> bytes list option" where
  "kdfn_loop pr t0 iovoutlen t iovout =
    (if t \<le> iovoutlen then
       (if t = 255 then None
        else kdfn_loop pr t0 iovoutlen (t + 1)
               (iovout @ [hmac pr [iovout ! (t - 2), [of_nat t]] t0]))
     else Some iovout)"
  by pat_completeness auto
termination
  by (relation "measure (\<lambda>(pr, t0, iovoutlen, t, iovout). Suc iovoutlen - t)") auto

text \<open>\<open>kdfn\<close>: \<open>None\<close> is the return value -1 and, for \<open>iovoutlen = 255\<close> only, the loop
  that has no result; no call of the enclave asks for more than three outputs. The
  input \<open>in\<close> may be \<open>NULL\<close>.\<close>

definition kdfn :: "prims \<Rightarrow> nat \<Rightarrow> bytes option \<Rightarrow> bytes \<Rightarrow> bytes list option" where
  "kdfn pr iovoutlen inp key =
    (if iovoutlen < 1 \<or> iovoutlen > 255 then None
     else
       (let t0 = (case inp of Some i \<Rightarrow> hmac pr [take KEYLEN i] key | None \<Rightarrow> hmac pr [] key)
        in kdfn_loop pr t0 iovoutlen 2 [hmac pr [[1]] t0]))"

definition kdf1 :: "prims \<Rightarrow> bytes \<Rightarrow> bytes \<Rightarrow> bytes option" where
  "kdf1 pr inp key =
    (case kdfn pr 1 (Some inp) key of
       Some [out] \<Rightarrow> Some out
     | _ \<Rightarrow> None)"

section \<open>Handshake state, peers, interfaces and messages\<close>

text \<open>
  The pointers between \<open>struct hs\<close>, \<open>struct peer\<close> and \<open>struct ifn\<close> are replaced by
  containment: the handshake state is a field of its peer (\<open>hs->peer\<close> is the peer that
  holds it), the peers are the list \<open>ifn->peers\<close> of their interface (\<open>peer->ifn\<close> is
  the interface that holds them, \<open>ifn->peerssize\<close> the length of the list). A pointer to
  a peer is the index of the peer in that list, \<open>NULL\<close> is \<open>None\<close>.
\<close>

record hs =
  hs_sessid :: "32 word"
  hs_peersessid :: "32 word"
  hs_epriv :: bytes
  hs_epubi :: bytes
  hs_c :: bytes
  hs_h :: bytes

record peer =
  p_id :: "32 word"
  p_pubkey :: bytes
  p_pubkeyhash :: bytes
  p_mac1key :: bytes
  p_dhsecret :: bytes
  p_psk :: bytes
  p_hs :: hs
  p_recvts :: bytes

record ifn =
  ifn_id :: "32 word"
  ifn_port :: int
  ifn_ifname :: string
  ifn_privkey :: bytes
  ifn_pubkey :: bytes
  ifn_pubkeyhash :: bytes
  ifn_mac1key :: bytes
  ifn_cookiekey :: bytes
  ifn_peers :: "peer list"

record msgwginit =
  mwi_type :: "32 word"
  mwi_sender :: "32 word"
  mwi_ephemeral :: bytes
  mwi_stat :: bytes
  mwi_timestamp :: bytes
  mwi_mac1 :: bytes
  mwi_mac2 :: bytes

record msgwgresp =
  mwr_type :: "32 word"
  mwr_sender :: "32 word"
  mwr_receiver :: "32 word"
  mwr_ephemeral :: bytes
  mwr_empty :: bytes
  mwr_mac1 :: bytes
  mwr_mac2 :: bytes

record msgsesskeys =
  msk_sessid :: "32 word"
  msk_peersessid :: "32 word"
  msk_sendkey :: bytes
  msk_recvkey :: bytes

text \<open>The bytes of a \<open>uint32_t\<close> in memory (the session ids are kept in wire format,
  little-endian), and the prefixes of the two handshake messages that \<open>mac1\<close> covers:
  everything up to the \<open>mac1\<close> field.\<close>

definition le32 :: "32 word \<Rightarrow> bytes" where
  "le32 w = map (\<lambda>i. ucast (drop_bit (8 * i) w)) [0, 1, 2, 3]"

definition msga_init :: "msgwginit \<Rightarrow> bytes" where
  "msga_init mwi = le32 (mwi_type mwi) @ le32 (mwi_sender mwi) @ mwi_ephemeral mwi @
     mwi_stat mwi @ mwi_timestamp mwi"

definition msga_resp :: "msgwgresp \<Rightarrow> bytes" where
  "msga_resp mwr = le32 (mwr_type mwr) @ le32 (mwr_sender mwr) @ le32 (mwr_receiver mwr) @
     mwr_ephemeral mwr @ mwr_empty mwr"

text \<open>
  The scratch buffer \<open>msg\<close> is read through a cast to \<open>struct msgwginit\<close> or to
  \<open>struct msgwgresp\<close>: a received message is given with both views.
\<close>

record msgbuf =
  msg_mwi :: msgwginit
  msg_mwr :: msgwgresp

text \<open>
  The memory the handshake code reads without having written it in the same call:
  the two construction hashes set at startup, the static buffers \<open>tmpts\<close>, \<open>tmpstat\<close> and
  \<open>tmpempty\<close> as they are at entry, and \<open>m_past\<close>, the bytes that follow the array
  \<open>recvts\<close> of the peer in memory (the replay check compares \<open>sizeof(tmpts)\<close> bytes).
\<close>

record mem =
  m_conshash :: bytes
  m_considhash :: bytes
  m_tmpts :: bytes
  m_tmpstat :: bytes
  m_tmpempty :: bytes
  m_past :: bytes

text \<open>
  What a call takes from its environment: the value of \<open>arc4random\<close>, the key pair
  of \<open>X25519_keypair\<close> (public, private), the 12 bytes \<open>externaltai64n\<close> writes (\<open>None\<close>
  when it returns -1), the return value of \<open>wire_sendpeeridmsg\<close> for a message type,
  and the return value of \<open>close\<close>.
\<close>

datatype mtcode = MSGWGINIT | MSGWGRESP | MSGREQWGINIT | MSGCONNREQ | MSGSESSKEYS | MSGOTHER byte

record env =
  e_arc4random :: "32 word"
  e_keypair :: "bytes \<times> bytes"
  e_tai64n :: "bytes option"
  e_send :: "mtcode \<Rightarrow> int"
  e_close :: int

text \<open>The messages handed to \<open>wire_sendpeeridmsg\<close>: port, peer id, type and content.\<close>

datatype payload = PInit msgwginit | PResp msgwgresp | PConnReq bytes | PSessKeys msgsesskeys

type_synonym frame = "int \<times> 32 word \<times> mtcode \<times> payload"

text \<open>
  How a routine ends: it returns a value, the process exits, or it reads through a
  pointer that is \<open>NULL\<close> or past the end of its table (\<open>Fault\<close>).
\<close>

datatype ret = Return int | Exit int | Fault

section \<open>Session keys\<close>

text \<open>\<open>makemsgsesskeys\<close>: the two outputs of \<open>kdfn\<close> without input under the chaining key
  are written to \<open>recvkey\<close>, \<open>sendkey\<close> for the responder and to \<open>sendkey\<close>, \<open>recvkey\<close>
  for the initiator. On success every field of \<open>msk\<close> is written: the result is the new
  message, \<open>None\<close> is the return value -1.\<close>

definition makemsgsesskeys :: "prims \<Rightarrow> hs \<Rightarrow> int \<Rightarrow> msgsesskeys option" where
  "makemsgsesskeys pr hs responder =
    (case kdfn pr 2 None (hs_c hs) of
       Some [k0, k1] \<Rightarrow>
         Some (if responder \<noteq> 0
               then \<lparr>msk_sessid = hs_sessid hs, msk_peersessid = hs_peersessid hs,
                     msk_sendkey = k1, msk_recvkey = k0\<rparr>
               else \<lparr>msk_sessid = hs_sessid hs, msk_peersessid = hs_peersessid hs,
                     msk_sendkey = k0, msk_recvkey = k1\<rparr>)
     | _ \<Rightarrow> None)"

section \<open>Diffie-Hellman, hashing, lookups, AEAD\<close>

definition dh :: "prims \<Rightarrow> bytes \<Rightarrow> bytes \<Rightarrow> int \<times> bytes" where
  "dh pr privkey peerkey =
    (case X25519 pr privkey peerkey of
       (r, sharedsecret) \<Rightarrow> (if r = 0 then -1 else 0, sharedsecret))"

definition inithash2 :: "prims \<Rightarrow> bytes \<Rightarrow> bytes \<Rightarrow> bytes" where
  "inithash2 pr in1 in2 = ws_hash pr [in1, in2]"

definition appendhash :: "prims \<Rightarrow> bytes \<Rightarrow> bytes \<Rightarrow> bytes" where
  "appendhash pr h inp = ws_hash pr [h, inp]"

text \<open>The lookup loops \<open>for (n = 0; n < ifn->peerssize; n++)\<close>: the first index whose
  peer matches.\<close>

fun findfrom :: "(peer \<Rightarrow> bool) \<Rightarrow> peer list \<Rightarrow> nat \<Rightarrow> nat option" where
  "findfrom f [] n = None"
| "findfrom f (p # ps) n = (if f p then Some n else findfrom f ps (Suc n))"

definition findifnpeerbypubkey :: "ifn \<Rightarrow> bytes \<Rightarrow> nat option" where
  "findifnpeerbypubkey ifn pubkey =
    findfrom (\<lambda>p. memcmp (p_pubkey p) pubkey KEYLEN = 0) (ifn_peers ifn) 0"

definition findifnpeerbysessid :: "ifn \<Rightarrow> 32 word \<Rightarrow> nat option" where
  "findifnpeerbysessid ifn sessid =
    findfrom (\<lambda>p. hs_sessid (p_hs p) = sessid) (ifn_peers ifn) 0"

definition findifnpeerbyid :: "ifn \<Rightarrow> 32 word \<Rightarrow> nat option" where
  "findifnpeerbyid ifn peerid =
    (if unat peerid \<ge> length (ifn_peers ifn) then None else Some (unat peerid))"

definition getpeer :: "ifn \<Rightarrow> nat \<Rightarrow> peer" where
  "getpeer ifn j = ifn_peers ifn ! j"

definition setpeer :: "ifn \<Rightarrow> nat \<Rightarrow> peer \<Rightarrow> ifn" where
  "setpeer ifn j p = ifn\<lparr>ifn_peers := (ifn_peers ifn)[j := p]\<rparr>"

text \<open>
  \<open>aead\<close>: \<open>out\<close> is the buffer written, \<open>n\<close> its size (\<open>*outlen\<close> at entry). The library
  fails when its output does not fit. \<open>None\<close> is the return value -1, else the result is
  the new content of \<open>out\<close>: the bytes written, followed by what \<open>out\<close> held behind them.
\<close>

definition aead :: "prims \<Rightarrow> bytes \<Rightarrow> nat \<Rightarrow> bytes \<Rightarrow> bytes \<Rightarrow> bytes \<Rightarrow> int \<Rightarrow> bytes option" where
  "aead pr out n inp key h opn =
    (case (if opn \<noteq> 0 then EVP_open pr key h inp else EVP_seal pr key h inp) of
       None \<Rightarrow> None
     | Some res \<Rightarrow> if length res > n then None else Some (memcpy out res (length res)))"

section \<open>The handshake initiation\<close>

text \<open>
  \<open>upgradehsinit\<close> is modelled in the order of its code. An array assigned from an array
  of the same declared size (\<open>memcpy\<close> of \<open>KEYLEN\<close> or \<open>HASHLEN\<close> bytes between keys and
  hashes) is the assignment of the value. \<open>Inl\<close> is an early return.

  First part: the hash is started from the public key hash of the responder and the
  ephemeral key, the chaining key from the construction hash, and the first
  Diffie-Hellman result is mixed in. The initiator reads through \<open>*peer\<close>.
\<close>

definition hsinit_e ::
  "prims \<Rightarrow> mem \<Rightarrow> ifn \<Rightarrow> msgwginit \<Rightarrow> nat option \<Rightarrow> int \<Rightarrow> ret + (bytes \<times> bytes \<times> bytes)" where
  "hsinit_e pr m ifn mwi peer responder =
    (if responder = 0 \<and> peer = None then Inl Fault
     else
       (let tmph = appendhash pr
              (if responder \<noteq> 0 then ifn_pubkeyhash ifn
               else p_pubkeyhash (getpeer ifn (the peer)))
              (mwi_ephemeral mwi)
        in case kdf1 pr (mwi_ephemeral mwi) (m_conshash m) of
             None \<Rightarrow> Inl (Return (- 1))
           | Some tmpc \<Rightarrow>
               (case (if responder \<noteq> 0 then dh pr (ifn_privkey ifn) (mwi_ephemeral mwi)
                      else dh pr (hs_epriv (p_hs (getpeer ifn (the peer))))
                             (p_pubkey (getpeer ifn (the peer)))) of
                  (rc, k) \<Rightarrow>
                    if rc = - 1 then Inl (Return (- 1))
                    else (case kdfn pr 2 (Some k) tmpc of
                            Some [tmpc', k'] \<Rightarrow> Inr (tmph, tmpc', k')
                          | _ \<Rightarrow> Inl (Return (- 1))))))"

text \<open>
  Second part: the responder opens \<open>mwi->stat\<close> into \<open>tmpstat\<close>, looks the peer up by
  the key found there and, when a peer was given, compares the two pointers; the
  initiator seals the public key of its interface into \<open>mwi->stat\<close>. The result is the
  peer \<open>*peer\<close> points to from here on, and the message.
\<close>

definition hsinit_s ::
  "prims \<Rightarrow> mem \<Rightarrow> ifn \<Rightarrow> msgwginit \<Rightarrow> nat option \<Rightarrow> int \<Rightarrow> bytes \<Rightarrow> bytes \<Rightarrow>
     ret + (nat \<times> msgwginit)" where
  "hsinit_s pr m ifn mwi peer responder k tmph =
    (if responder \<noteq> 0 then
       (case aead pr (m_tmpstat m) (KEYLEN + TAGLEN) (mwi_stat mwi) k tmph 1 of
          None \<Rightarrow> Inl (Return (- 1))
        | Some tmpstat' \<Rightarrow>
            (case findifnpeerbypubkey ifn tmpstat' of
               None \<Rightarrow> Inl (Return (- 1))
             | Some p \<Rightarrow>
                 if peer \<noteq> None \<and> Some p \<noteq> peer then Inl (Return (- 1))
                 else Inr (p, mwi)))
     else
       (case aead pr (mwi_stat mwi) (KEYLEN + TAGLEN) (ifn_pubkey ifn) k tmph 0 of
          None \<Rightarrow> Inl (Return (- 1))
        | Some stat \<Rightarrow> Inr (the peer, mwi\<lparr>mwi_stat := stat\<rparr>)))"

text \<open>Third part: \<open>mwi->stat\<close> is hashed and the precomputed static-static secret of
  the peer is mixed in.\<close>

definition hsinit_ss ::
  "prims \<Rightarrow> ifn \<Rightarrow> nat \<Rightarrow> msgwginit \<Rightarrow> bytes \<Rightarrow> bytes \<Rightarrow> ret + (bytes \<times> bytes \<times> bytes)" where
  "hsinit_ss pr ifn p mwi tmph tmpc =
    (case kdfn pr 2 (Some (p_dhsecret (getpeer ifn p))) tmpc of
       Some [tmpc', k'] \<Rightarrow> Inr (appendhash pr tmph (mwi_stat mwi), tmpc', k')
     | _ \<Rightarrow> Inl (Return (- 1)))"

text \<open>The three parts in sequence: everything \<open>upgradehsinit\<close> does before the timestamp.
  An early return comes with the value of \<open>*peer\<close> at that point.\<close>

definition hsinit_auth ::
  "prims \<Rightarrow> mem \<Rightarrow> ifn \<Rightarrow> msgwginit \<Rightarrow> nat option \<Rightarrow> int \<Rightarrow>
     (ret \<times> nat option) + (nat \<times> msgwginit \<times> bytes \<times> bytes \<times> bytes)" where
  "hsinit_auth pr m ifn mwi peer responder =
    (case hsinit_e pr m ifn mwi peer responder of
       Inl r \<Rightarrow> Inl (r, peer)
     | Inr (tmph, tmpc, k) \<Rightarrow>
         (case hsinit_s pr m ifn mwi peer responder k tmph of
            Inl r \<Rightarrow> Inl (r, peer)
          | Inr (p, mwi1) \<Rightarrow>
              (case hsinit_ss pr ifn p mwi1 tmph tmpc of
                 Inl r \<Rightarrow> Inl (r, Some p)
               | Inr (tmph', tmpc', k') \<Rightarrow> Inr (p, mwi1, tmph', tmpc', k'))))"

text \<open>
  \<open>upgradehsinit\<close>: the responder opens the timestamp into \<open>tmpts\<close>, compares
  \<open>sizeof(tmpts)\<close> bytes of it with the memory at \<open>recvts\<close>, and on success stores the
  first 12 bytes in \<open>recvts\<close> and the ephemeral key in \<open>epubi\<close>; the initiator seals the
  first 12 bytes of \<open>mwi->timestamp\<close> in place. Then the hash and the chaining key are
  stored in the handshake state. The result is the return value, the interface with
  its peers, the message and \<open>*peer\<close>.
\<close>

definition upgradehsinit ::
  "prims \<Rightarrow> mem \<Rightarrow> ifn \<Rightarrow> msgwginit \<Rightarrow> nat option \<Rightarrow> int \<Rightarrow> ret \<times> ifn \<times> msgwginit \<times> nat option" where
  "upgradehsinit pr m ifn mwi peer responder =
    (case hsinit_auth pr m ifn mwi peer responder of
       Inl (r, peer') \<Rightarrow> (r, ifn, mwi, peer')
     | Inr (p, mwi1, tmph, tmpc, k) \<Rightarrow>
         (if responder \<noteq> 0 then
            (case aead pr (m_tmpts m) (12 + TAGLEN) (mwi_timestamp mwi1) k tmph 1 of
               None \<Rightarrow> (Return (- 1), ifn, mwi1, Some p)
             | Some tmpts' \<Rightarrow>
                 if memcmp tmpts' (p_recvts (getpeer ifn p) @ m_past m) (12 + TAGLEN) \<le> 0
                 then (Return (- 1), ifn, mwi1, Some p)
                 else
                   (let P = getpeer ifn p;
                        h = (p_hs P)\<lparr>hs_epubi := mwi_ephemeral mwi1, hs_c := tmpc,
                               hs_h := appendhash pr tmph (mwi_timestamp mwi1)\<rparr>
                    in (Return 0,
                        setpeer ifn p
                          (P\<lparr>p_recvts := memcpy (p_recvts P) tmpts' (min 12 (12 + TAGLEN)),
                             p_hs := h\<rparr>),
                        mwi1, Some p)))
          else
            (case aead pr (mwi_timestamp mwi1) (12 + TAGLEN)
                    (take (12 + TAGLEN - TAGLEN) (mwi_timestamp mwi1)) k tmph 0 of
               None \<Rightarrow> (Return (- 1), ifn, mwi1, Some p)
             | Some ts \<Rightarrow>
                 (let P = getpeer ifn p;
                      h = (p_hs P)\<lparr>hs_c := tmpc, hs_h := appendhash pr tmph ts\<rparr>
                  in (Return 0, setpeer ifn p (P\<lparr>p_hs := h\<rparr>),
                      mwi1\<lparr>mwi_timestamp := ts\<rparr>, Some p)))))"

text \<open>
  \<open>createhsinit\<close> for the peer at index \<open>j\<close>: a new session id and ephemeral key pair,
  the timestamp, \<open>upgradehsinit\<close> as initiator, then \<open>mac1\<close> under the \<open>mac1key\<close> of the
  peer and a zero \<open>mac2\<close>.
\<close>

definition createhsinit ::
  "prims \<Rightarrow> mem \<Rightarrow> env \<Rightarrow> ifn \<Rightarrow> nat \<Rightarrow> msgwginit \<Rightarrow> ret \<times> ifn \<times> msgwginit" where
  "createhsinit pr m e ifn j mwi =
    (let P = getpeer ifn j;
         h = (p_hs P)\<lparr>hs_sessid := e_arc4random e, hs_epriv := snd (e_keypair e)\<rparr>;
         ifn1 = setpeer ifn j (P\<lparr>p_hs := h\<rparr>);
         mwi1 = mwi\<lparr>mwi_type := 1, mwi_sender := hs_sessid h,
                    mwi_ephemeral := fst (e_keypair e)\<rparr>
     in case e_tai64n e of
          None \<Rightarrow> (Return (- 1), ifn1, mwi1)
        | Some ts \<Rightarrow>
            (case upgradehsinit pr m ifn1
                    (mwi1\<lparr>mwi_timestamp := memcpy (mwi_timestamp mwi1) ts (12 + TAGLEN - TAGLEN)\<rparr>)
                    (Some j) 0 of
               (r, ifn2, mwi2, peer') \<Rightarrow>
                 if r = Return (- 1) then (Return (- 1), ifn2, mwi2)
                 else if r \<noteq> Return 0 then (r, ifn2, mwi2)
                 else
                   (case ws_mac pr (msga_init mwi2) (p_mac1key (getpeer ifn2 j)) of
                      None \<Rightarrow> (Return (- 1), ifn2, mwi2)
                    | Some mac \<Rightarrow>
                        (Return 0, ifn2,
                         mwi2\<lparr>mwi_mac1 := mac, mwi_mac2 := replicate 16 0\<rparr>))))"

section \<open>The handshake response\<close>

text \<open>
  \<open>upgradehsresp\<close> for the handshake state of the peer at index \<open>j\<close> of the interface
  (\<open>hs->peer\<close> is that peer and \<open>hs->peer->ifn\<close> the interface). Only the chaining key
  is stored at the end; the hash \<open>tmph\<close> is used for the AEAD and dropped.
\<close>

definition upgradehsresp ::
  "prims \<Rightarrow> mem \<Rightarrow> ifn \<Rightarrow> nat \<Rightarrow> msgwgresp \<Rightarrow> int \<Rightarrow> ret \<times> ifn \<times> msgwgresp" where
  "upgradehsresp pr m ifn j mwr responder =
    (let P = getpeer ifn j; h = p_hs P; fail = (Return (- 1), ifn, mwr)
     in case kdf1 pr (mwr_ephemeral mwr) (hs_c h) of
          None \<Rightarrow> fail
        | Some tmpc \<Rightarrow>
     (case (if responder \<noteq> 0 then dh pr (hs_epriv h) (hs_epubi h)
            else dh pr (hs_epriv h) (mwr_ephemeral mwr)) of
        (rc, k) \<Rightarrow> if rc = - 1 then fail else
     (case kdf1 pr k tmpc of
        None \<Rightarrow> fail
      | Some tmpc1 \<Rightarrow>
     (case (if responder \<noteq> 0 then dh pr (hs_epriv h) (p_pubkey P)
            else dh pr (ifn_privkey ifn) (mwr_ephemeral mwr)) of
        (rc1, k1) \<Rightarrow> if rc1 = - 1 then fail else
     (case kdf1 pr k1 tmpc1 of
        None \<Rightarrow> fail
      | Some tmpc2 \<Rightarrow>
     (case kdfn pr 3 (Some (p_psk P)) tmpc2 of
        Some [tmpc3, tau, k2] \<Rightarrow>
          (let tmph = appendhash pr (inithash2 pr (hs_h h) (mwr_ephemeral mwr)) tau;
               ifn' = setpeer ifn j (P\<lparr>p_hs := h\<lparr>hs_c := tmpc3\<rparr>\<rparr>)
           in if responder \<noteq> 0 then
                (case aead pr (mwr_empty mwr) (0 + TAGLEN) [] k2 tmph 0 of
                   None \<Rightarrow> fail
                 | Some sealed \<Rightarrow> (Return 0, ifn', mwr\<lparr>mwr_empty := sealed\<rparr>))
              else
                (case aead pr (m_tmpempty m) (0 + TAGLEN) (mwr_empty mwr) k2 tmph 1 of
                   None \<Rightarrow> fail
                 | Some tmpempty' \<Rightarrow> (Return 0, ifn', mwr)))
      | _ \<Rightarrow> fail))))))"

text \<open>
  \<open>createhsresp\<close> for the peer at index \<open>j\<close>: the sender of the initiation is read
  before anything is written to the response (the two may be the same memory).
\<close>

definition createhsresp ::
  "prims \<Rightarrow> mem \<Rightarrow> env \<Rightarrow> ifn \<Rightarrow> nat \<Rightarrow> msgwgresp \<Rightarrow> msgwginit \<Rightarrow> ret \<times> ifn \<times> msgwgresp" where
  "createhsresp pr m e ifn j mwr mwi =
    (let P = getpeer ifn j;
         h = (p_hs P)\<lparr>hs_sessid := e_arc4random e, hs_peersessid := mwi_sender mwi,
                hs_epriv := snd (e_keypair e)\<rparr>;
         ifn1 = setpeer ifn j (P\<lparr>p_hs := h\<rparr>);
         mwr1 = mwr\<lparr>mwr_type := 2, mwr_sender := hs_sessid h, mwr_receiver := hs_peersessid h,
                    mwr_ephemeral := fst (e_keypair e)\<rparr>
     in case upgradehsresp pr m ifn1 j mwr1 1 of
          (r, ifn2, mwr2) \<Rightarrow>
            if r = Return (- 1) then (Return (- 1), ifn2, mwr2)
            else if r \<noteq> Return 0 then (r, ifn2, mwr2)
            else
              (case ws_mac pr (msga_resp mwr2) (p_mac1key (getpeer ifn2 j)) of
                 None \<Rightarrow> (Return (- 1), ifn2, mwr2)
               | Some mac \<Rightarrow>
                   (Return 0, ifn2, mwr2\<lparr>mwr_mac1 := mac, mwr_mac2 := replicate 16 0\<rparr>)))"

section \<open>The message handlers\<close>

text \<open>
  The block \<open>if (fsn && lsn) { ... }\<close> of both handlers: without socket names nothing is
  sent; a failing \<open>makemsgconnreq\<close> ends the process, a failing send returns -1.
  \<open>Inr\<close> is the list of the messages sent.
\<close>

definition sendconnreq ::
  "prims \<Rightarrow> env \<Rightarrow> ifn \<Rightarrow> peer \<Rightarrow> (bytes \<times> bytes) option \<Rightarrow> ret + frame list" where
  "sendconnreq pr e ifn P addrs =
    (case addrs of
       None \<Rightarrow> Inr []
     | Some (fsn, lsn) \<Rightarrow>
         (case makemsgconnreq pr fsn lsn of
            None \<Rightarrow> Inl (Exit 1)
          | Some mcr \<Rightarrow>
              if e_send e MSGCONNREQ = - 1 then Inl (Return (- 1))
              else Inr [(ifn_port ifn, p_id P, MSGCONNREQ, PConnReq mcr)]))"

text \<open>
  \<open>handlewginit\<close>: \<open>peer\<close> is the peer the caller asserts (\<open>NULL\<close> from the proxy), \<open>addrs\<close>
  the foreign and local socket names (\<open>NULL\<close> from an interface). The result is the
  return value, the interface with its peers, and the messages sent.
\<close>

definition handlewginit ::
  "prims \<Rightarrow> mem \<Rightarrow> env \<Rightarrow> ifn \<Rightarrow> nat option \<Rightarrow> (bytes \<times> bytes) option \<Rightarrow> msgbuf \<Rightarrow>
     ret \<times> ifn \<times> frame list" where
  "handlewginit pr m e ifn peer addrs msg =
    (let mwi = msg_mwi msg
     in if \<not> ws_validmac pr (mwi_mac1 mwi) (msga_init mwi) (ifn_mac1key ifn)
        then (Return (- 1), ifn, [])
        else
          (case upgradehsinit pr m ifn mwi peer 1 of
             (r, ifn1, mwi1, peer1) \<Rightarrow>
               if r = Return (- 1) then (Return (- 1), ifn1, [])
               else if r \<noteq> Return 0 then (r, ifn1, [])
               else
                 (case peer1 of
                    None \<Rightarrow> (Fault, ifn1, [])
                  | Some p \<Rightarrow>
                      (case createhsresp pr m e ifn1 p (msg_mwr msg) mwi1 of
                         (r2, ifn2, mwr) \<Rightarrow>
                           if r2 = Return (- 1) then (Return (- 1), ifn2, [])
                           else if r2 \<noteq> Return 0 then (r2, ifn2, [])
                           else
                             (case sendconnreq pr e ifn2 (getpeer ifn2 p) addrs of
                                Inl r3 \<Rightarrow> (r3, ifn2, [])
                              | Inr sent \<Rightarrow>
                                  (case makemsgsesskeys pr (p_hs (getpeer ifn2 p)) 1 of
                                     None \<Rightarrow> (Exit 1, ifn2, sent)
                                   | Some msk \<Rightarrow>
                                       if e_send e MSGSESSKEYS = - 1
                                       then (Return (- 1), ifn2, sent)
                                       else if e_send e MSGWGRESP = - 1
                                       then (Return (- 1), ifn2,
                                             sent @ [(ifn_port ifn2, p_id (getpeer ifn2 p),
                                                      MSGSESSKEYS, PSessKeys msk)])
                                       else (Return 0, ifn2,
                                             sent @ [(ifn_port ifn2, p_id (getpeer ifn2 p),
                                                      MSGSESSKEYS, PSessKeys msk),
                                                     (ifn_port ifn2, p_id (getpeer ifn2 p),
                                                      MSGWGRESP, PResp mwr)])))))))"

definition handlewgresp ::
  "prims \<Rightarrow> mem \<Rightarrow> env \<Rightarrow> ifn \<Rightarrow> nat option \<Rightarrow> (bytes \<times> bytes) option \<Rightarrow> msgbuf \<Rightarrow>
     ret \<times> ifn \<times> frame list" where
  "handlewgresp pr m e ifn peer addrs msg =
    (let mwr = msg_mwr msg
     in if \<not> ws_validmac pr (mwr_mac1 mwr) (msga_resp mwr) (ifn_mac1key ifn)
        then (Return (- 1), ifn, [])
        else
          (case findifnpeerbysessid ifn (mwr_receiver mwr) of
             None \<Rightarrow> (Return (- 1), ifn, [])
           | Some p \<Rightarrow>
               if (case peer of
                     None \<Rightarrow> False
                   | Some q \<Rightarrow> p_id (getpeer ifn q) \<noteq> p_id (getpeer ifn p))
               then (Return (- 1), ifn, [])
               else
                 (case upgradehsresp pr m ifn p mwr 0 of
                    (r, ifn1, mwr1) \<Rightarrow>
                      if r = Return (- 1) then (Return (- 1), ifn1, [])
                      else if r \<noteq> Return 0 then (r, ifn1, [])
                      else
                        (let P = getpeer ifn1 p;
                             P' = P\<lparr>p_hs := (p_hs P)\<lparr>hs_peersessid := mwr_sender mwr1\<rparr>\<rparr>;
                             ifn2 = setpeer ifn1 p P'
                         in case sendconnreq pr e ifn2 P' addrs of
                              Inl r3 \<Rightarrow> (r3, ifn2, [])
                            | Inr sent \<Rightarrow>
                                (case makemsgsesskeys pr (p_hs P') 0 of
                                   None \<Rightarrow> (Exit 1, ifn2, sent)
                                 | Some msk \<Rightarrow>
                                     if e_send e MSGSESSKEYS = - 1
                                     then (Return (- 1), ifn2, sent)
                                     else (Return 0, ifn2,
                                           sent @ [(ifn_port ifn2, p_id P', MSGSESSKEYS,
                                                    PSessKeys msk)]))))))"

text \<open>
  \<open>handleifnmsg\<close>: \<open>rx\<close> is what \<open>wire_recvpeeridmsg\<close> delivers, the peer id, the
  message type and the message, \<open>None\<close> when it returns -1.
\<close>

definition handleifnmsg ::
  "prims \<Rightarrow> mem \<Rightarrow> env \<Rightarrow> ifn \<Rightarrow> (32 word \<times> mtcode \<times> msgbuf) option \<Rightarrow> ret \<times> ifn \<times> frame list" where
  "handleifnmsg pr m e ifn rx =
    (case rx of
       None \<Rightarrow> (Return (- 1), ifn, [])
     | Some (peerid, mt, msg) \<Rightarrow>
         (case findifnpeerbyid ifn peerid of
            None \<Rightarrow> (Return (- 1), ifn, [])
          | Some peer \<Rightarrow>
              (case mt of
                 MSGWGINIT \<Rightarrow> handlewginit pr m e ifn (Some peer) None msg
               | MSGWGRESP \<Rightarrow> handlewgresp pr m e ifn (Some peer) None msg
               | MSGREQWGINIT \<Rightarrow>
                   (case createhsinit pr m e ifn peer (msg_mwi msg) of
                      (r, ifn1, mwi) \<Rightarrow>
                        if r = Return (- 1) then (Return (- 1), ifn1, [])
                        else if r \<noteq> Return 0 then (r, ifn1, [])
                        else if e_send e MSGWGINIT = - 1 then (Return (- 1), ifn1, [])
                        else (Return 0, ifn1, [(ifn_port ifn1, peerid, MSGWGINIT, PInit mwi)]))
               | _ \<Rightarrow> (Return (- 1), ifn, []))))"

text \<open>
  \<open>handleproxymsg\<close> on the interface table \<open>ifnv\<close> (\<open>ifnvsize\<close> is its length): \<open>rx\<close> is
  what \<open>wire_recvproxymsg\<close> delivers, the interface id, the local and the foreign socket
  name, the message type and the message. The guard is \<open>ifnid > ifnvsize\<close>; an id equal
  to \<open>ifnvsize\<close> passes it and \<open>ifnv[ifnid]\<close> is read past the end of the table.
\<close>

definition handleproxymsg ::
  "prims \<Rightarrow> mem \<Rightarrow> env \<Rightarrow> ifn list \<Rightarrow> (32 word \<times> bytes \<times> bytes \<times> mtcode \<times> msgbuf) option \<Rightarrow>
     ret \<times> ifn list \<times> frame list" where
  "handleproxymsg pr m e ifnv rx =
    (case rx of
       None \<Rightarrow> (Return (- 1), ifnv, [])
     | Some (ifnid, lsn, fsn, mt, msg) \<Rightarrow>
         if unat ifnid > length ifnv then (Return (- 1), ifnv, [])
         else if \<not> unat ifnid < length ifnv then (Fault, ifnv, [])
         else
           (case mt of
              MSGWGINIT \<Rightarrow>
                (case handlewginit pr m e (ifnv ! unat ifnid) None (Some (fsn, lsn)) msg of
                   (r, ifn', sent) \<Rightarrow> (r, ifnv[unat ifnid := ifn'], sent))
            | MSGWGRESP \<Rightarrow>
                (case handlewgresp pr m e (ifnv ! unat ifnid) None (Some (fsn, lsn)) msg of
                   (r, ifn', sent) \<Rightarrow> (r, ifnv[unat ifnid := ifn'], sent))
            | _ \<Rightarrow> (Return (- 1), ifnv, [])))"

text \<open>
  One event of the loop of \<open>enclave_serv\<close>, with the descriptor \<open>ident\<close> and the flag
  \<open>EV_EOF\<close>: the proxy descriptor \<open>pport\<close> first, else the first interface with that
  port. The value a handler returns is not looked at; \<open>None\<close> says that the loop goes
  on, \<open>Some\<close> how the process ended.
\<close>

fun findport :: "ifn list \<Rightarrow> int \<Rightarrow> nat \<Rightarrow> nat option" where
  "findport [] ident n = None"
| "findport (i # is) ident n = (if ident = ifn_port i then Some n else findport is ident (Suc n))"

definition goes_on :: "ret \<Rightarrow> ret option" where
  "goes_on r = (case r of Return v \<Rightarrow> None | _ \<Rightarrow> Some r)"

definition serv_event ::
  "prims \<Rightarrow> mem \<Rightarrow> env \<Rightarrow> int \<Rightarrow> ifn list \<Rightarrow> int \<Rightarrow> bool \<Rightarrow>
     (32 word \<times> bytes \<times> bytes \<times> mtcode \<times> msgbuf) option \<Rightarrow> (32 word \<times> mtcode \<times> msgbuf) option \<Rightarrow>
     ret option \<times> ifn list \<times> frame list" where
  "serv_event pr m e pport ifnv ident eof prx irx =
    (if ident = pport then
       (if eof then (if e_close e = - 1 then Some (Exit 1) else None, ifnv, [])
        else (case handleproxymsg pr m e ifnv prx of
                (r, ifnv', sent) \<Rightarrow> (goes_on r, ifnv', sent)))
     else
       (case findport ifnv ident 0 of
          None \<Rightarrow> (None, ifnv, [])
        | Some n \<Rightarrow>
            if eof then (if e_close e = - 1 then Some (Exit 1) else None, ifnv, [])
            else (case handleifnmsg pr m e (ifnv ! n) irx of
                    (r, ifn', sent) \<Rightarrow> (goes_on r, ifnv[n := ifn'], sent))))"

section \<open>Configuration\<close>

text \<open>
  The messages of the master, as \<open>wire_recvmsg\<close> delivers them with their type code.
  Their declarations (wiresep.h) are not part of the sources: the ids are taken as
  \<open>uint32_t\<close>, like the fields they are stored in, the counts as \<open>size_t\<close>.
\<close>

record sinit =
  si_background :: int
  si_verbose :: int
  si_uid :: nat
  si_gid :: nat
  si_proxport :: int
  si_nifns :: nat

record sifn =
  sf_ifnid :: "32 word"
  sf_ifname :: string
  sf_ifnport :: int
  sf_npeers :: nat
  sf_privkey :: bytes
  sf_pubkey :: bytes
  sf_pubkeyhash :: bytes
  sf_mac1key :: bytes
  sf_cookiekey :: bytes

record speer =
  sp_ifnid :: "32 word"
  sp_peerid :: "32 word"
  sp_psk :: bytes
  sp_peerkey :: bytes
  sp_mac1key :: bytes

datatype smsg = SINIT sinit | SIFN sifn | SPEER speer | SEOS

record enclave =
  en_background :: int
  en_verbose :: int
  en_uid :: nat
  en_gid :: nat
  en_pport :: int
  en_ifnv :: "ifn list"

text \<open>
  The inner loop of \<open>recvconfig\<close>, \<open>for (m = 0; m < ifn->peerssize; m++)\<close>, for the
  interface \<open>n\<close>: \<open>msgs\<close> are the messages still to be received (a failing receive is the
  end of the list), \<open>junk n m\<close> is what \<open>malloc\<close> returns for the handshake state. A failed
  assertion and \<open>exit\<close> are \<open>None\<close>. The result of \<open>dh\<close> is not looked at. Allocation is
  taken to succeed.
\<close>

function recvpeers ::
  "prims \<Rightarrow> mem \<Rightarrow> (nat \<Rightarrow> nat \<Rightarrow> hs) \<Rightarrow> bytes \<Rightarrow> nat \<Rightarrow> nat \<Rightarrow> nat \<Rightarrow> smsg list \<Rightarrow>
     (peer list \<times> smsg list) option" where
  "recvpeers pr mm junk privkey n peerssize m msgs =
    (if m < peerssize then
       (case msgs of
          SPEER sp # rest \<Rightarrow>
            if unat (sp_ifnid sp) = n \<and> unat (sp_peerid sp) = m then
              (case recvpeers pr mm junk privkey n peerssize (m + 1) rest of
                 None \<Rightarrow> None
               | Some (ps, rest') \<Rightarrow>
                   Some (\<lparr>p_id = of_nat m, p_pubkey = sp_peerkey sp,
                          p_pubkeyhash = appendhash pr (m_considhash mm) (sp_peerkey sp),
                          p_mac1key = sp_mac1key sp,
                          p_dhsecret = snd (dh pr privkey (sp_peerkey sp)),
                          p_psk = sp_psk sp, p_hs = junk n m,
                          p_recvts = replicate 12 0\<rparr> # ps, rest'))
            else None
        | _ \<Rightarrow> None)
     else Some ([], msgs))"
  by pat_completeness auto
termination
  by (relation "measure (\<lambda>(pr, mm, junk, privkey, n, peerssize, m, msgs). peerssize - m)") auto

text \<open>The outer loop, \<open>for (n = 0; n < ifnvsize; n++)\<close>.\<close>

function recvifns ::
  "prims \<Rightarrow> mem \<Rightarrow> (nat \<Rightarrow> nat \<Rightarrow> hs) \<Rightarrow> nat \<Rightarrow> nat \<Rightarrow> smsg list \<Rightarrow> (ifn list \<times> smsg list) option" where
  "recvifns pr mm junk ifnvsize n msgs =
    (if n < ifnvsize then
       (case msgs of
          SIFN sf # rest \<Rightarrow>
            if n = unat (sf_ifnid sf) then
              (case recvpeers pr mm junk (sf_privkey sf) n (sf_npeers sf) 0 rest of
                 None \<Rightarrow> None
               | Some (ps, rest') \<Rightarrow>
                   (case recvifns pr mm junk ifnvsize (n + 1) rest' of
                      None \<Rightarrow> None
                    | Some (is, rest'') \<Rightarrow>
                        Some (\<lparr>ifn_id = sf_ifnid sf, ifn_port = sf_ifnport sf,
                               ifn_ifname = sf_ifname sf, ifn_privkey = sf_privkey sf,
                               ifn_pubkey = sf_pubkey sf, ifn_pubkeyhash = sf_pubkeyhash sf,
                               ifn_mac1key = sf_mac1key sf, ifn_cookiekey = sf_cookiekey sf,
                               ifn_peers = ps\<rparr> # is, rest'')))
            else None
        | _ \<Rightarrow> None)
     else Some ([], msgs))"
  by pat_completeness auto
termination
  by (relation "measure (\<lambda>(pr, mm, junk, ifnvsize, n, msgs). ifnvsize - n)") auto

text \<open>\<open>recvconfig\<close>: \<open>SINIT\<close>, the interfaces with their peers, then \<open>SEOS\<close>.\<close>

definition recvconfig ::
  "prims \<Rightarrow> mem \<Rightarrow> (nat \<Rightarrow> nat \<Rightarrow> hs) \<Rightarrow> smsg list \<Rightarrow> enclave option" where
  "recvconfig pr mm junk msgs =
    (case msgs of
       SINIT si # rest \<Rightarrow>
         (case recvifns pr mm junk (si_nifns si) 0 rest of
            None \<Rightarrow> None
          | Some (is, rest') \<Rightarrow>
              (case rest' of
                 SEOS # rest'' \<Rightarrow>
                   Some \<lparr>en_background = si_background si, en_verbose = si_verbose si,
                         en_uid = si_uid si, en_gid = si_gid si, en_pport = si_proxport si,
                         en_ifnv = is\<rparr>
               | _ \<Rightarrow> None))
     | _ \<Rightarrow> None)"

section \<open>Notions used in the statements\<close>

text \<open>The strict lexicographic order on byte strings, bytes compared as unsigned
  values: the order of TAI64N timestamps of the same length.\<close>

definition ts_less :: "bytes \<Rightarrow> bytes \<Rightarrow> bool" where
  "ts_less a b = ((a, b) \<in> lexord {(x, y). x < y})"

text \<open>The peer ids of an interface are dense: the peer at index \<open>i\<close> has the id \<open>i\<close>.\<close>

definition ids_dense :: "ifn \<Rightarrow> bool" where
  "ids_dense ifn = (map (\<lambda>p. unat (p_id p)) (ifn_peers ifn) = [0..<length (ifn_peers ifn)])"

text \<open>The values \<open>upgradehsinit\<close> reaches before the timestamp: the hash chain over the public key hash, the
  ephemeral key and \<open>stat\<close>, and the chaining key derived from the construction hash,
  the ephemeral key, the first Diffie-Hellman result and the static-static secret.\<close>

definition init_h :: "prims \<Rightarrow> bytes \<Rightarrow> bytes \<Rightarrow> bytes \<Rightarrow> bytes" where
  "init_h pr pkh eph stat = appendhash pr (appendhash pr pkh eph) stat"

definition init_c :: "prims \<Rightarrow> bytes \<Rightarrow> bytes \<Rightarrow> bytes \<Rightarrow> bytes \<Rightarrow> bytes" where
  "init_c pr conshash eph k0 dhsecret =
    (case kdf1 pr eph conshash of
       Some c0 \<Rightarrow>
         (case kdfn pr 2 (Some k0) c0 of
            Some [c1, k1] \<Rightarrow>
              (case kdfn pr 2 (Some dhsecret) c1 of Some [c2, k2] \<Rightarrow> c2 | _ \<Rightarrow> [])
          | _ \<Rightarrow> [])
     | None \<Rightarrow> [])"

text \<open>The chaining key \<open>upgradehsresp\<close> reaches: from the chaining key of the
  initiation, the ephemeral key of the response, the two Diffie-Hellman results and
  the pre-shared key.\<close>

definition resp_c :: "prims \<Rightarrow> bytes \<Rightarrow> bytes \<Rightarrow> bytes \<Rightarrow> bytes \<Rightarrow> bytes \<Rightarrow> bytes" where
  "resp_c pr c eph k0 k1 psk =
    (case kdf1 pr eph c of
       Some c0 \<Rightarrow>
         (case kdf1 pr k0 c0 of
            Some c1 \<Rightarrow>
              (case kdf1 pr k1 c1 of
                 Some c2 \<Rightarrow>
                   (case kdfn pr 3 (Some psk) c2 of Some [c3, tau, k] \<Rightarrow> c3 | _ \<Rightarrow> [])
               | None \<Rightarrow> [])
          | None \<Rightarrow> [])
     | None \<Rightarrow> [])"

section \<open>An instance of the primitives for evaluation\<close>

text \<open>
  The theorems below hold for every choice of the primitives. To evaluate the model on
  concrete handshakes, the primitives are instantiated with small functions that have
  the algebraic properties the protocol relies on (the Diffie-Hellman results of two
  key pairs agree, opening a sealed text under the same key and hash gives the text
  back) and none of the cryptographic ones. The base point is 9: the public key of the
  private key \<open>a\<close> is \<open>9 * a\<close>.
\<close>

definition t_fnv :: "32 word \<Rightarrow> bytes \<Rightarrow> 32 word" where
  "t_fnv basis bs = foldl (\<lambda>h b. (h XOR ucast b) * 16777619) basis bs"

definition t_hash :: "bytes \<Rightarrow> bytes" where
  "t_hash bs = (let h = t_fnv 2166136261 bs in concat (map (\<lambda>i. le32 (h * (2 * i + 1))) [0, 1, 2, 3, 4, 5, 6, 7]))"

definition t_x25519 :: "bytes \<Rightarrow> bytes \<Rightarrow> int \<times> bytes" where
  "t_x25519 priv pub =
    (let s = map (\<lambda>(a, b). a * b) (zip priv pub)
     in (if s = replicate (length s) 0 then 0 else 1, s))"

definition t_tag :: "bytes \<Rightarrow> bytes \<Rightarrow> bytes \<Rightarrow> bytes" where
  "t_tag key ad pt =
    (let h = t_fnv 40389 (key @ ad @ pt) in concat (map (\<lambda>i. le32 (h * (2 * i + 1))) [0, 1, 2, 3]))"

definition t_seal :: "bytes \<Rightarrow> bytes \<Rightarrow> bytes \<Rightarrow> bytes option" where
  "t_seal key ad inp = Some (map (\<lambda>(a, b). a XOR b) (zip inp key) @ t_tag key ad inp)"

definition t_open :: "bytes \<Rightarrow> bytes \<Rightarrow> bytes \<Rightarrow> bytes option" where
  "t_open key ad inp =
    (if length inp < 16 then None
     else
       (let pt = map (\<lambda>(a, b). a XOR b) (zip (take (length inp - 16) inp) key)
        in if drop (length inp - 16) inp = t_tag key ad pt then Some pt else None))"

definition t_mac :: "bytes \<Rightarrow> bytes \<Rightarrow> bytes option" where
  "t_mac data key =
    Some (let h = t_fnv 50021 (key @ data) in concat (map (\<lambda>i. le32 (h * (2 * i + 1))) [0, 1, 2, 3]))"

definition t_prims :: prims where
  "t_prims = \<lparr>blake2s = t_hash, X25519 = t_x25519, EVP_open = t_open, EVP_seal = t_seal,
     ws_mac = t_mac, makemsgconnreq = (\<lambda>fsn lsn. Some (lsn @ fsn))\<rparr>"

text \<open>Keys, hashes and buffers of two interfaces, and the values the handshakes
  below compute from them (each is proved to be that value further down).\<close>

definition t_conshash :: bytes where "t_conshash = replicate 32 4"
definition t_considhash :: bytes where "t_considhash = replicate 32 2"
definition t_zero12 :: bytes where "t_zero12 = replicate 12 0"
definition t_zero16 :: bytes where "t_zero16 = replicate 16 0"
definition t_zero28 :: bytes where "t_zero28 = replicate 28 0"
definition t_zero32 :: bytes where "t_zero32 = replicate 32 0"
definition t_zero48 :: bytes where "t_zero48 = replicate 48 0"
definition t_past :: bytes where "t_past = replicate 16 219"
definition t_spriv_i :: bytes where "t_spriv_i = replicate 32 5"
definition t_spub_i :: bytes where "t_spub_i = replicate 32 45"
definition t_spriv_r :: bytes where "t_spriv_r = replicate 32 7"
definition t_spub_r :: bytes where "t_spub_r = replicate 32 63"
definition t_spub_x :: bytes where "t_spub_x = replicate 32 81"
definition t_epriv_i :: bytes where "t_epriv_i = replicate 32 3"
definition t_epub_i :: bytes where "t_epub_i = replicate 32 27"
definition t_epriv_r :: bytes where "t_epriv_r = replicate 32 11"
definition t_epub_r :: bytes where "t_epub_r = replicate 32 99"
definition t_dhs :: bytes where "t_dhs = replicate 32 59"
definition t_dhs_x :: bytes where "t_dhs_x = replicate 32 55"
definition t_mk_i :: bytes where "t_mk_i = replicate 32 10"
definition t_mk_r :: bytes where "t_mk_r = replicate 32 8"
definition t_mk_x :: bytes where "t_mk_x = replicate 32 16"
definition t_ck :: bytes where "t_ck = replicate 32 12"
definition t_tai :: bytes where "t_tai = [64, 0, 0, 0, 101, 0, 0, 1, 0, 0, 0, 5]"

definition t_pkh_r :: bytes where
  "t_pkh_r = [37, 85, 73, 255, 111, 255, 219, 253, 185, 169, 110, 252, 3, 84, 1, 251, 77, 254,
     147, 249, 151, 168, 38, 248, 225, 82, 185, 246, 43, 253, 75, 245]"

definition t_pkh_i :: bytes where
  "t_pkh_i = [165, 153, 181, 72, 239, 204, 32, 218, 57, 0, 140, 107, 131, 51, 247, 252, 205,
     102, 98, 142, 23, 154, 205, 31, 97, 205, 56, 177, 171, 0, 164, 66]"

definition t_pkh_x :: bytes where
  "t_pkh_x = [69, 132, 167, 99, 207, 140, 246, 42, 89, 149, 69, 242, 227, 157, 148, 185, 109,
     166, 227, 128, 247, 174, 50, 72, 129, 183, 129, 15, 11, 192, 208, 214]"

definition i_h0 :: bytes where
  "i_h0 = [40, 3, 238, 223, 120, 9, 202, 159, 200, 15, 166, 95, 24, 22, 130, 31, 104, 28, 94,
     223, 184, 34, 58, 159, 8, 41, 22, 95, 88, 47, 242, 30]"

definition i_c0 :: bytes where
  "i_c0 = [187, 222, 44, 148, 49, 156, 134, 188, 167, 89, 224, 228, 29, 23, 58, 13, 147, 212,
     147, 53, 9, 146, 237, 93, 127, 79, 71, 134, 245, 12, 161, 174]"

definition i_k0 :: bytes where
  "i_k0 = replicate 32 189"

definition i_c1 :: bytes where
  "i_c1 = [57, 93, 193, 62, 171, 23, 68, 188, 29, 210, 198, 57, 143, 140, 73, 183, 1, 71,
     204, 52, 115, 1, 79, 178, 229, 187, 209, 47, 87, 118, 84, 173]"

definition i_k1 :: bytes where
  "i_k1 = [29, 54, 54, 129, 87, 162, 162, 131, 145, 14, 15, 134, 203, 122, 123, 136, 5, 231,
     231, 138, 63, 83, 84, 141, 121, 191, 192, 143, 179, 43, 45, 146]"

definition i_stat :: bytes where
  "i_stat = [48, 27, 27, 172, 122, 143, 143, 174, 188, 35, 34, 171, 230, 87, 86, 165, 40, 202,
     202, 167, 18, 126, 121, 160, 84, 146, 237, 162, 158, 6, 0, 191, 119, 64, 97, 92,
     101, 193, 35, 21, 83, 66, 230, 205, 65, 195, 168, 134]"

definition i_h1 :: bytes where
  "i_h1 = [125, 225, 137, 92, 119, 164, 157, 21, 113, 103, 177, 206, 107, 42, 197, 135, 101,
     237, 216, 64, 95, 176, 236, 249, 89, 115, 0, 179, 83, 54, 20, 108]"

definition i_c2 :: bytes where
  "i_c2 = [132, 115, 235, 43, 140, 90, 194, 131, 148, 65, 153, 219, 156, 40, 112, 51, 164,
     15, 71, 139, 172, 246, 29, 227, 180, 221, 244, 58, 188, 196, 203, 146]"

definition i_k2 :: bytes where
  "i_k2 = [102, 71, 228, 27, 50, 214, 172, 83, 254, 100, 117, 139, 202, 243, 61, 195, 150,
     130, 6, 251, 98, 17, 207, 50, 46, 160, 151, 106, 250, 46, 96, 162]"

definition i_ts :: bytes where
  "i_ts = [38, 71, 228, 27, 87, 214, 172, 82, 254, 100, 117, 142, 106, 15, 17, 75, 62, 46,
     51, 225, 18, 77, 85, 119, 230, 107, 119, 13]"

definition i_h2 :: bytes where
  "i_h2 = [118, 16, 192, 0, 98, 49, 64, 2, 78, 82, 192, 3, 58, 115, 64, 5, 38, 148, 192, 6,
     18, 181, 64, 8, 254, 213, 192, 9, 234, 246, 64, 11]"

definition i_mac :: bytes where
  "i_mac = [89, 177, 19, 101, 11, 20, 59, 47, 189, 118, 98, 249, 111, 217, 137, 195]"

definition r_tmpstat :: bytes where
  "r_tmpstat = [45, 45, 45, 45, 45, 45, 45, 45, 45, 45, 45, 45, 45, 45, 45, 45, 45, 45, 45, 45,
     45, 45, 45, 45, 45, 45, 45, 45, 45, 45, 45, 45, 0, 0, 0, 0, 0, 0, 0, 0, 0, 0, 0, 0,
     0, 0, 0, 0]"

definition r_tmpts :: bytes where
  "r_tmpts = [64, 0, 0, 0, 101, 0, 0, 1, 0, 0, 0, 5, 0, 0, 0, 0, 0, 0, 0, 0, 0, 0, 0, 0, 0, 0,
     0, 0]"

definition q_c0 :: bytes where
  "q_c0 = [84, 40, 20, 160, 252, 120, 60, 224, 164, 201, 100, 32, 76, 26, 141, 96, 244, 106,
     181, 160, 156, 187, 221, 224, 68, 12, 6, 33, 236, 92, 46, 97]"

definition q_h0 :: bytes where
  "q_h0 = [3, 30, 132, 149, 9, 90, 140, 192, 15, 150, 148, 235, 21, 210, 156, 22, 27, 14,
     165, 65, 33, 74, 173, 108, 39, 134, 181, 151, 45, 194, 189, 194]"

definition q_k0 :: bytes where
  "q_k0 = replicate 32 41"

definition q_c1 :: bytes where
  "q_c1 = [190, 81, 141, 239, 58, 245, 167, 206, 182, 152, 194, 173, 50, 60, 221, 140, 174,
     223, 247, 107, 42, 131, 18, 75, 166, 38, 45, 42, 34, 202, 71, 9]"

definition q_k1 :: bytes where
  "q_k1 = replicate 32 239"

definition q_c2 :: bytes where
  "q_c2 = [219, 49, 250, 67, 145, 149, 238, 203, 71, 249, 226, 83, 253, 92, 215, 219, 179,
     192, 203, 99, 105, 36, 192, 235, 31, 136, 180, 115, 213, 235, 168, 251]"

definition q_c3 :: bytes where
  "q_c3 = [170, 55, 19, 113, 254, 166, 57, 83, 82, 22, 96, 53, 166, 133, 134, 23, 250, 244,
     172, 249, 78, 100, 211, 219, 162, 211, 249, 189, 246, 66, 32, 160]"

definition q_tau :: bytes where
  "q_tau = [89, 201, 242, 229, 11, 92, 216, 177, 189, 238, 189, 125, 111, 129, 163, 73, 33,
     20, 137, 21, 211, 166, 110, 225, 133, 57, 84, 173, 55, 204, 57, 121]"

definition q_k2 :: bytes where
  "q_k2 = [128, 237, 44, 48, 128, 200, 134, 144, 128, 163, 224, 240, 128, 126, 58, 81, 128,
     89, 148, 177, 128, 52, 238, 17, 128, 15, 72, 114, 128, 234, 161, 210]"

definition q_h1 :: bytes where
  "q_h1 = [96, 92, 224, 123, 32, 21, 161, 115, 224, 205, 97, 107, 160, 134, 34, 99, 96, 63,
     227, 90, 32, 248, 163, 82, 224, 176, 100, 74, 160, 105, 37, 66]"

definition q_empty :: bytes where
  "q_empty = [86, 141, 132, 15, 2, 168, 141, 46, 174, 194, 150, 77, 90, 221, 159, 108]"

definition q_mac :: bytes where
  "q_mac = [217, 32, 235, 73, 139, 98, 193, 221, 61, 164, 151, 113, 239, 229, 109, 5]"

definition q_s0 :: bytes where
  "q_s0 = [168, 67, 143, 1, 248, 202, 173, 4, 72, 82, 204, 7, 152, 217, 234, 10, 232, 96, 9,
     14, 56, 232, 39, 17, 136, 111, 70, 20, 216, 246, 100, 23]"

definition q_s1 :: bytes where
  "q_s1 = [192, 138, 104, 237, 64, 160, 57, 200, 192, 181, 10, 163, 64, 203, 219, 125, 192,
     224, 172, 88, 64, 246, 125, 51, 192, 11, 79, 14, 64, 33, 32, 233]"

definition z_stat :: bytes where
  "z_stat = [29, 54, 54, 129, 87, 162, 162, 131, 145, 14, 15, 134, 203, 122, 123, 136, 5, 231,
     231, 138, 63, 83, 84, 141, 121, 191, 192, 143, 179, 43, 45, 146, 23, 55, 144, 218,
     69, 165, 176, 143, 115, 19, 209, 68, 161, 129, 241, 249]"

definition z_h1 :: bytes where
  "z_h1 = [147, 221, 114, 27, 185, 152, 88, 82, 223, 83, 62, 137, 5, 15, 36, 192, 43, 202, 9,
     247, 81, 133, 239, 45, 119, 64, 213, 100, 157, 251, 186, 155]"

definition z_c2 :: bytes where
  "z_c2 = [125, 18, 135, 3, 119, 55, 149, 10, 113, 92, 163, 17, 107, 129, 177, 24, 101, 166,
     191, 31, 95, 203, 205, 38, 89, 240, 219, 45, 83, 21, 234, 52]"

definition z_k2 :: bytes where
  "z_k2 = [154, 24, 2, 153, 206, 73, 6, 203, 2, 123, 10, 253, 54, 172, 14, 47, 106, 221, 18,
     97, 158, 14, 23, 147, 210, 63, 27, 197, 6, 113, 31, 247]"

definition z_ts :: bytes where
  "z_ts = [218, 24, 2, 153, 171, 73, 6, 202, 2, 123, 10, 248, 53, 189, 228, 119, 159, 55,
     174, 103, 9, 178, 119, 87, 115, 44, 65, 71]"

definition z_h2 :: bytes where
  "z_h2 = [102, 53, 241, 180, 50, 160, 211, 30, 254, 10, 182, 136, 202, 117, 152, 242, 150,
     224, 122, 92, 98, 75, 93, 198, 46, 182, 63, 48, 250, 32, 34, 154]"

definition z_mac :: bytes where
  "z_mac = [172, 154, 199, 185, 4, 208, 86, 45, 92, 5, 230, 160, 180, 58, 117, 20]"

definition z_q0 :: bytes where
  "z_q0 = [239, 31, 58, 151, 205, 95, 174, 197, 171, 159, 34, 244, 137, 223, 150, 34, 103,
     31, 11, 81, 69, 95, 127, 127, 35, 159, 243, 173, 1, 223, 103, 220]"

definition z_q1 :: bytes where
  "z_q1 = [147, 64, 248, 209, 185, 193, 232, 117, 223, 66, 217, 25, 5, 196, 201, 189, 43, 69,
     186, 97, 81, 198, 170, 5, 119, 71, 155, 169, 157, 200, 139, 77]"

definition x_mac :: bytes where
  "x_mac = [185, 136, 8, 108, 43, 154, 25, 68, 157, 171, 42, 28, 15, 189, 59, 244]"

definition t_mem :: mem where
  "t_mem = \<lparr>m_conshash = t_conshash, m_considhash = t_considhash, m_tmpts = t_zero28,
     m_tmpstat = t_zero48, m_tmpempty = t_zero16, m_past = t_past\<rparr>"

definition t_junk :: hs where
  "t_junk = \<lparr>hs_sessid = 0, hs_peersessid = 0, hs_epriv = t_zero32, hs_epubi = t_zero32,
     hs_c = t_zero32, hs_h = t_zero32\<rparr>"

text \<open>The initiator: its one peer is the responder.\<close>

definition t_peer_r :: peer where
  "t_peer_r = \<lparr>p_id = 0, p_pubkey = t_spub_r, p_pubkeyhash = t_pkh_r, p_mac1key = t_mk_r,
     p_dhsecret = t_dhs, p_psk = t_zero32, p_hs = t_junk, p_recvts = t_zero12\<rparr>"

definition t_ifn_i :: ifn where
  "t_ifn_i = \<lparr>ifn_id = 0, ifn_port = 3, ifn_ifname = ''tun0'', ifn_privkey = t_spriv_i,
     ifn_pubkey = t_spub_i, ifn_pubkeyhash = t_pkh_i, ifn_mac1key = t_mk_i,
     ifn_cookiekey = t_ck, ifn_peers = [t_peer_r]\<rparr>"

text \<open>The responder: peer 0 is configured with the all-zero public key (a point of
  small order: every Diffie-Hellman result with it is zero), peer 1 is the initiator.\<close>

definition t_peer_x :: peer where
  "t_peer_x = \<lparr>p_id = 0, p_pubkey = t_zero32, p_pubkeyhash = t_pkh_x, p_mac1key = t_mk_x,
     p_dhsecret = t_zero32, p_psk = t_zero32, p_hs = t_junk, p_recvts = t_zero12\<rparr>"

definition t_peer_i :: peer where
  "t_peer_i = \<lparr>p_id = 1, p_pubkey = t_spub_i, p_pubkeyhash = t_pkh_i, p_mac1key = t_mk_i,
     p_dhsecret = t_dhs, p_psk = t_zero32, p_hs = t_junk, p_recvts = t_zero12\<rparr>"

definition t_ifn_r :: ifn where
  "t_ifn_r = \<lparr>ifn_id = 0, ifn_port = 4, ifn_ifname = ''tun1'', ifn_privkey = t_spriv_r,
     ifn_pubkey = t_spub_r, ifn_pubkeyhash = t_pkh_r, ifn_mac1key = t_mk_r,
     ifn_cookiekey = t_ck, ifn_peers = [t_peer_x, t_peer_i]\<rparr>"

definition t_env_i :: env where
  "t_env_i = \<lparr>e_arc4random = 4660, e_keypair = (t_epub_i, t_epriv_i), e_tai64n = Some t_tai,
     e_send = (\<lambda>mt. 0), e_close = 0\<rparr>"

definition t_env_r :: env where
  "t_env_r = \<lparr>e_arc4random = 22136, e_keypair = (t_epub_r, t_epriv_r), e_tai64n = None,
     e_send = (\<lambda>mt. 0), e_close = 0\<rparr>"

definition t_mwi0 :: msgwginit where
  "t_mwi0 = \<lparr>mwi_type = 0, mwi_sender = 0, mwi_ephemeral = t_zero32, mwi_stat = t_zero48,
     mwi_timestamp = t_zero28, mwi_mac1 = t_zero16, mwi_mac2 = t_zero16\<rparr>"

definition t_mwr0 :: msgwgresp where
  "t_mwr0 = \<lparr>mwr_type = 0, mwr_sender = 0, mwr_receiver = 0, mwr_ephemeral = t_zero32,
     mwr_empty = t_zero16, mwr_mac1 = t_zero16, mwr_mac2 = t_zero16\<rparr>"

definition t_init :: msgwginit where
  "t_init = \<lparr>mwi_type = 1, mwi_sender = 4660, mwi_ephemeral = t_epub_i, mwi_stat = i_stat,
     mwi_timestamp = i_ts, mwi_mac1 = i_mac, mwi_mac2 = t_zero16\<rparr>"

definition t_resp :: msgwgresp where
  "t_resp = \<lparr>mwr_type = 2, mwr_sender = 22136, mwr_receiver = 4660, mwr_ephemeral = t_epub_r,
     mwr_empty = q_empty, mwr_mac1 = q_mac, mwr_mac2 = t_zero16\<rparr>"

text \<open>The states of the handshake between the two: the initiator after
  \<open>createhsinit\<close> (\<open>t_ifn_i1\<close>), the responder after \<open>upgradehsinit\<close> (\<open>t_ifn_r1\<close>) and
  after \<open>createhsresp\<close> (\<open>t_ifn_r2\<close>), the initiator after \<open>upgradehsresp\<close> (\<open>t_ifn_i2\<close>)
  and after \<open>handlewgresp\<close> (\<open>t_ifn_i3\<close>).\<close>

definition t_ifn_i1 :: ifn where
  "t_ifn_i1 = t_ifn_i\<lparr>ifn_peers := [t_peer_r\<lparr>p_hs :=
     \<lparr>hs_sessid = 4660, hs_peersessid = 0, hs_epriv = t_epriv_i, hs_epubi = t_zero32,
      hs_c = i_c2, hs_h = i_h2\<rparr>\<rparr>]\<rparr>"

definition t_ifn_r1 :: ifn where
  "t_ifn_r1 = t_ifn_r\<lparr>ifn_peers := [t_peer_x, t_peer_i\<lparr>p_recvts := t_tai, p_hs :=
     \<lparr>hs_sessid = 0, hs_peersessid = 0, hs_epriv = t_zero32, hs_epubi = t_epub_i,
      hs_c = i_c2, hs_h = i_h2\<rparr>\<rparr>]\<rparr>"

definition t_ifn_r2 :: ifn where
  "t_ifn_r2 = t_ifn_r\<lparr>ifn_peers := [t_peer_x, t_peer_i\<lparr>p_recvts := t_tai, p_hs :=
     \<lparr>hs_sessid = 22136, hs_peersessid = 4660, hs_epriv = t_epriv_r, hs_epubi = t_epub_i,
      hs_c = q_c3, hs_h = i_h2\<rparr>\<rparr>]\<rparr>"

definition t_ifn_i2 :: ifn where
  "t_ifn_i2 = t_ifn_i\<lparr>ifn_peers := [t_peer_r\<lparr>p_hs :=
     \<lparr>hs_sessid = 4660, hs_peersessid = 0, hs_epriv = t_epriv_i, hs_epubi = t_zero32,
      hs_c = q_c3, hs_h = i_h2\<rparr>\<rparr>]\<rparr>"

definition t_ifn_i3 :: ifn where
  "t_ifn_i3 = t_ifn_i\<lparr>ifn_peers := [t_peer_r\<lparr>p_hs :=
     \<lparr>hs_sessid = 4660, hs_peersessid = 22136, hs_epriv = t_epriv_i, hs_epubi = t_zero32,
      hs_c = q_c3, hs_h = i_h2\<rparr>\<rparr>]\<rparr>"

text \<open>An initiation in the name of peer 0 of the responder, the peer with the all-zero
  key: the static-static secret is zero, so it can be built without any private key of
  that peer. \<open>t_ifn_z\<close> is the responder after \<open>upgradehsinit\<close> on it.\<close>

definition t_init_z :: msgwginit where
  "t_init_z = \<lparr>mwi_type = 1, mwi_sender = 4660, mwi_ephemeral = t_epub_i, mwi_stat = z_stat,
     mwi_timestamp = z_ts, mwi_mac1 = z_mac, mwi_mac2 = t_zero16\<rparr>"

definition t_ifn_z :: ifn where
  "t_ifn_z = t_ifn_r\<lparr>ifn_peers := [t_peer_x\<lparr>p_recvts := t_tai, p_hs :=
     \<lparr>hs_sessid = 0, hs_peersessid = 0, hs_epriv = t_zero32, hs_epubi = t_epub_i,
      hs_c = z_c2, hs_h = z_h2\<rparr>\<rparr>, t_peer_i]\<rparr>"

text \<open>The responder after \<open>createhsresp\<close> has failed for that initiation, and an
  environment in which every send fails.\<close>

definition t_ifn_z2 :: ifn where
  "t_ifn_z2 = t_ifn_r\<lparr>ifn_peers := [t_peer_x\<lparr>p_recvts := t_tai, p_hs :=
     \<lparr>hs_sessid = 22136, hs_peersessid = 4660, hs_epriv = t_epriv_r, hs_epubi = t_epub_i,
      hs_c = z_c2, hs_h = z_h2\<rparr>\<rparr>, t_peer_i]\<rparr>"

definition t_env_f :: env where
  "t_env_f = \<lparr>e_arc4random = 22136, e_keypair = (t_epub_r, t_epriv_r), e_tai64n = None,
     e_send = (\<lambda>mt. - 1), e_close = 0\<rparr>"

text \<open>A single flipped bit, and a response whose receiver is the session id that
  peer 1 of \<open>t_ifn_r2\<close> holds, with its \<open>mac1\<close> under the key of that interface.\<close>

definition flipbit :: "bytes \<Rightarrow> bytes" where
  "flipbit bs = (case bs of [] \<Rightarrow> [] | b # bs' \<Rightarrow> (b XOR 1) # bs')"

definition t_resp_x :: msgwgresp where
  "t_resp_x = \<lparr>mwr_type = 2, mwr_sender = 22136, mwr_receiver = 22136,
     mwr_ephemeral = t_epub_r, mwr_empty = q_empty, mwr_mac1 = x_mac, mwr_mac2 = t_zero16\<rparr>"

text \<open>The configuration of the responder, as the master sends it.\<close>

definition t_cfg :: "smsg list" where
  "t_cfg =
    [SINIT \<lparr>si_background = 0, si_verbose = 0, si_uid = 1000, si_gid = 1000, si_proxport = 9,
       si_nifns = 1\<rparr>,
     SIFN \<lparr>sf_ifnid = 0, sf_ifname = ''tun1'', sf_ifnport = 4, sf_npeers = 2,
       sf_privkey = t_spriv_r, sf_pubkey = t_spub_r, sf_pubkeyhash = t_pkh_r,
       sf_mac1key = t_mk_r, sf_cookiekey = t_ck\<rparr>,
     SPEER \<lparr>sp_ifnid = 0, sp_peerid = 0, sp_psk = t_zero32, sp_peerkey = t_zero32,
       sp_mac1key = t_mk_x\<rparr>,
     SPEER \<lparr>sp_ifnid = 0, sp_peerid = 1, sp_psk = t_zero32, sp_peerkey = t_spub_i,
       sp_mac1key = t_mk_i\<rparr>,
     SEOS]"

definition t_enclave :: enclave where
  "t_enclave = \<lparr>en_background = 0, en_verbose = 0, en_uid = 1000, en_gid = 1000, en_pport = 9,
     en_ifnv = [t_ifn_r]\<rparr>"

section \<open>Key derivation: the outputs\<close>

lemma kdfn_1:
  "kdfn pr 1 inp key =
    (let t0 = (case inp of Some i \<Rightarrow> hmac pr [take KEYLEN i] key | None \<Rightarrow> hmac pr [] key)
     in Some [hmac pr [[1]] t0])"
  by (simp add: kdfn_def Let_def)

lemma kdfn_2:
  "kdfn pr 2 inp key =
    (let t0 = (case inp of Some i \<Rightarrow> hmac pr [take KEYLEN i] key | None \<Rightarrow> hmac pr [] key);
         o1 = hmac pr [[1]] t0
     in Some [o1, hmac pr [o1, [2]] t0])"
  by (simp add: kdfn_def Let_def)

lemma kdfn_3:
  "kdfn pr 3 inp key =
    (let t0 = (case inp of Some i \<Rightarrow> hmac pr [take KEYLEN i] key | None \<Rightarrow> hmac pr [] key);
         o1 = hmac pr [[1]] t0; o2 = hmac pr [o1, [2]] t0
     in Some [o1, o2, hmac pr [o2, [3]] t0])"
  by (simp add: kdfn_def Let_def)

lemma kdf1_eq: "kdf1 pr inp key = Some (hmac pr [[1]] (hmac pr [take KEYLEN inp] key))"
  unfolding kdf1_def kdfn_1 Let_def by simp

section \<open>Evaluation of the instance\<close>

text \<open>The single steps of the handshakes of the instance, each evaluated on its own.\<close>

lemma ev_cfg_1: "appendhash t_prims t_considhash t_spub_r = t_pkh_r"
  by code_simp

lemma ev_cfg_2: "appendhash t_prims t_considhash t_spub_i = t_pkh_i"
  by code_simp

lemma ev_cfg_3: "appendhash t_prims t_considhash t_zero32 = t_pkh_x"
  by code_simp

lemma ev_cfg_4: "dh t_prims t_spriv_r t_zero32 = ((- 1), t_zero32)"
  by code_simp

lemma ev_cfg_5: "dh t_prims t_spriv_r t_spub_i = (0, t_dhs)"
  by code_simp

lemma ev_i_1: "appendhash t_prims t_pkh_r t_epub_i = i_h0"
  by code_simp

lemma ev_i_2: "kdf1 t_prims t_epub_i t_conshash = Some i_c0"
  by code_simp

lemma ev_i_3: "dh t_prims t_epriv_i t_spub_r = (0, i_k0)"
  by code_simp

lemma ev_i_4: "kdfn t_prims 2 (Some i_k0) i_c0 = Some [i_c1, i_k1]"
  by code_simp

lemma ev_i_5: "aead t_prims t_zero48 48 t_spub_i i_k1 i_h0 0 = Some i_stat"
  by code_simp

lemma ev_i_6: "appendhash t_prims i_h0 i_stat = i_h1"
  by code_simp

lemma ev_i_7: "kdfn t_prims 2 (Some t_dhs) i_c1 = Some [i_c2, i_k2]"
  by code_simp

lemma ev_i_8: "aead t_prims (memcpy t_zero28 t_tai 12) 28 (take 12 (memcpy t_zero28 t_tai 12)) i_k2 i_h1 0 = Some i_ts"
  by code_simp

lemma ev_i_9: "appendhash t_prims i_h1 i_ts = i_h2"
  by code_simp

lemma ev_i_10: "ws_mac t_prims (le32 1 @ le32 4660 @ t_epub_i @ i_stat @ i_ts) t_mk_r = Some i_mac"
  by code_simp

lemma ev_r_1: "dh t_prims t_spriv_r t_epub_i = (0, i_k0)"
  by code_simp

lemma ev_r_2: "aead t_prims t_zero48 48 i_stat i_k1 i_h0 1 = Some r_tmpstat"
  by code_simp

lemma ev_r_3: "memcmp t_zero32 r_tmpstat 32 = (- 45)"
  by code_simp

lemma ev_r_4: "memcmp t_spub_i r_tmpstat 32 = 0"
  by code_simp

lemma ev_r_5: "aead t_prims t_zero28 28 i_ts i_k2 i_h1 1 = Some r_tmpts"
  by code_simp

lemma ev_r_6: "memcmp r_tmpts (t_zero12 @ t_past) 28 = 64"
  by code_simp

lemma ev_r_7: "memcpy t_zero12 r_tmpts 12 = t_tai"
  by code_simp

lemma ev_r_8: "EVP_open t_prims i_k2 i_h1 i_ts = Some t_tai"
  by code_simp

lemma ev_r_9: "memcmp r_tmpts (t_tai @ t_past) 28 = (- 219)"
  by code_simp

lemma ev_q_1: "kdf1 t_prims t_epub_r i_c2 = Some q_c0"
  by code_simp

lemma ev_q_2: "inithash2 t_prims i_h2 t_epub_r = q_h0"
  by code_simp

lemma ev_q_3: "dh t_prims t_epriv_r t_epub_i = (0, q_k0)"
  by code_simp

lemma ev_q_4: "kdf1 t_prims q_k0 q_c0 = Some q_c1"
  by code_simp

lemma ev_q_5: "dh t_prims t_epriv_r t_spub_i = (0, q_k1)"
  by code_simp

lemma ev_q_6: "kdf1 t_prims q_k1 q_c1 = Some q_c2"
  by code_simp

lemma ev_q_7: "kdfn t_prims 3 (Some t_zero32) q_c2 = Some [q_c3, q_tau, q_k2]"
  by code_simp

lemma ev_q_8: "appendhash t_prims q_h0 q_tau = q_h1"
  by code_simp

lemma ev_q_9: "aead t_prims t_zero16 16 [] q_k2 q_h1 0 = Some q_empty"
  by code_simp

lemma ev_q_10: "ws_mac t_prims (le32 2 @ le32 22136 @ le32 4660 @ t_epub_r @ q_empty) t_mk_i = Some q_mac"
  by code_simp

lemma ev_q_11: "kdfn t_prims 2 None q_c3 = Some [q_s0, q_s1]"
  by code_simp

lemma ev_a_1: "dh t_prims t_epriv_i t_epub_r = (0, q_k0)"
  by code_simp

lemma ev_a_2: "dh t_prims t_spriv_i t_epub_r = (0, q_k1)"
  by code_simp

lemma ev_a_3: "aead t_prims t_zero16 16 q_empty q_k2 q_h1 1 = Some t_zero16"
  by code_simp

lemma ev_a_4: "aead t_prims t_zero16 16 t_zero16 q_k2 q_h1 1 = None"
  by code_simp

lemma ev_z_1: "aead t_prims t_zero48 48 t_zero32 i_k1 i_h0 0 = Some z_stat"
  by code_simp

lemma ev_z_2: "appendhash t_prims i_h0 z_stat = z_h1"
  by code_simp

lemma ev_z_3: "kdfn t_prims 2 (Some t_zero32) i_c1 = Some [z_c2, z_k2]"
  by code_simp

lemma ev_z_4: "aead t_prims (memcpy t_zero28 t_tai 12) 28 (take 12 (memcpy t_zero28 t_tai 12)) z_k2 z_h1 0 = Some z_ts"
  by code_simp

lemma ev_z_5: "appendhash t_prims z_h1 z_ts = z_h2"
  by code_simp

lemma ev_z_6: "ws_mac t_prims (le32 1 @ le32 4660 @ t_epub_i @ z_stat @ z_ts) t_mk_r = Some z_mac"
  by code_simp

lemma ev_z_7: "aead t_prims t_zero48 48 z_stat i_k1 i_h0 1 = Some t_zero48"
  by code_simp

lemma ev_z_8: "memcmp t_zero32 t_zero48 32 = 0"
  by code_simp

lemma ev_z_9: "aead t_prims t_zero28 28 z_ts z_k2 z_h1 1 = Some r_tmpts"
  by code_simp

lemma ev_z_10: "kdf1 t_prims t_epub_r z_c2 = Some z_q0"
  by code_simp

lemma ev_z_11: "kdf1 t_prims q_k0 z_q0 = Some z_q1"
  by code_simp

lemma ev_z_12: "dh t_prims t_epriv_r t_zero32 = ((- 1), t_zero32)"
  by code_simp

lemma ev_x_1: "ws_mac t_prims (le32 2 @ le32 22136 @ le32 22136 @ t_epub_r @ q_empty) t_mk_r = Some x_mac"
  by code_simp

lemmas t_leaves = ev_cfg_1 ev_cfg_2 ev_cfg_3 ev_cfg_4 ev_cfg_5 ev_i_1 ev_i_2 ev_i_3 ev_i_4 ev_i_5 ev_i_6 ev_i_7 ev_i_8 ev_i_9 ev_i_10 ev_r_1 ev_r_2 ev_r_3 ev_r_4 ev_r_5 ev_r_6 ev_r_7 ev_r_8 ev_r_9 ev_q_1 ev_q_2 ev_q_3 ev_q_4 ev_q_5 ev_q_6 ev_q_7 ev_q_8 ev_q_9 ev_q_10 ev_q_11 ev_a_1 ev_a_2 ev_a_3 ev_a_4 ev_z_1 ev_z_2 ev_z_3 ev_z_4 ev_z_5 ev_z_6 ev_z_7 ev_z_8 ev_z_9 ev_z_10 ev_z_11 ev_z_12 ev_x_1

lemmas t_recs = t_mem_def t_junk_def t_peer_r_def t_ifn_i_def t_peer_x_def t_peer_i_def
  t_ifn_r_def t_env_i_def t_env_r_def t_mwi0_def t_mwr0_def t_init_def t_resp_def
  t_ifn_i1_def t_ifn_r1_def t_ifn_r2_def t_ifn_i2_def t_ifn_i3_def t_init_z_def t_ifn_z_def
  t_ifn_z2_def t_env_f_def t_resp_x_def
  t_zero16_def [symmetric]

lemmas hs_defs = createhsinit_def upgradehsinit_def hsinit_auth_def hsinit_e_def hsinit_s_def
  hsinit_ss_def createhsresp_def upgradehsresp_def getpeer_def setpeer_def msga_init_def
  msga_resp_def findifnpeerbypubkey_def findifnpeerbysessid_def findifnpeerbyid_def
  ws_validmac_def makemsgsesskeys_def sendconnreq_def Let_def

text \<open>The handshake of the instance, step by step.\<close>

lemma t_createhsinit:
  "createhsinit t_prims t_mem t_env_i t_ifn_i 0 t_mwi0 = (Return 0, t_ifn_i1, t_init)"
  by (simp add: hs_defs t_recs t_leaves)

lemma t_hsinit_auth:
  "hsinit_auth t_prims t_mem t_ifn_r t_init None 1 = Inr (1, t_init, i_h1, i_c2, i_k2)"
  by (simp add: hs_defs t_recs t_leaves)

lemma t_upgradehsinit:
  "upgradehsinit t_prims t_mem t_ifn_r t_init None 1 = (Return 0, t_ifn_r1, t_init, Some 1)"
  by (simp add: hs_defs t_recs t_leaves)

lemma t_createhsresp:
  "createhsresp t_prims t_mem t_env_r t_ifn_r1 1 t_mwr0 t_init = (Return 0, t_ifn_r2, t_resp)"
  by (simp add: hs_defs t_recs t_leaves)

lemma t_upgradehsresp:
  "upgradehsresp t_prims t_mem t_ifn_i1 0 t_resp 0 = (Return 0, t_ifn_i2, t_resp)"
  by (simp add: hs_defs t_recs t_leaves)

lemma t_handlewginit:
  "handlewginit t_prims t_mem t_env_r t_ifn_r None None \<lparr>msg_mwi = t_init, msg_mwr = t_mwr0\<rparr> =
    (Return 0, t_ifn_r2,
     [(4, 1, MSGSESSKEYS, PSessKeys \<lparr>msk_sessid = 22136, msk_peersessid = 4660,
         msk_sendkey = q_s1, msk_recvkey = q_s0\<rparr>),
      (4, 1, MSGWGRESP, PResp t_resp)])"
  by (simp add: handlewginit_def hs_defs t_recs t_leaves)

lemma t_handlewgresp:
  "handlewgresp t_prims t_mem t_env_i t_ifn_i1 (Some 0) None \<lparr>msg_mwi = t_mwi0, msg_mwr = t_resp\<rparr> =
    (Return 0, t_ifn_i3,
     [(3, 0, MSGSESSKEYS, PSessKeys \<lparr>msk_sessid = 4660, msk_peersessid = 22136,
         msk_sendkey = q_s0, msk_recvkey = q_s1\<rparr>)])"
  by (simp add: handlewgresp_def hs_defs t_recs t_leaves)

lemma t_upgradehsinit_z:
  "upgradehsinit t_prims t_mem t_ifn_r t_init_z None 1 = (Return 0, t_ifn_z, t_init_z, Some 0)"
  by (simp add: hs_defs t_recs t_leaves)

lemma t_upgradehsinit_replay:
  "upgradehsinit t_prims t_mem t_ifn_r1 t_init None 1 = (Return (- 1), t_ifn_r1, t_init, Some 1)"
  by (simp add: hs_defs t_recs t_leaves)

lemma t_upgradehsresp_bad:
  "upgradehsresp t_prims t_mem t_ifn_i1 0 (t_resp\<lparr>mwr_empty := t_zero16\<rparr>) 0 =
    (Return (- 1), t_ifn_i1, t_resp\<lparr>mwr_empty := t_zero16\<rparr>)"
  by (simp add: hs_defs t_recs t_leaves)

lemma t_handlewginit_z:
  "handlewginit t_prims t_mem t_env_r t_ifn_r None None \<lparr>msg_mwi = t_init_z, msg_mwr = t_mwr0\<rparr> =
    (Return (- 1), t_ifn_z2, [])"
  by (simp add: handlewginit_def hs_defs t_recs t_leaves)

lemma t_handlewginit_f:
  "handlewginit t_prims t_mem t_env_f t_ifn_r None None \<lparr>msg_mwi = t_init, msg_mwr = t_mwr0\<rparr> =
    (Return (- 1), t_ifn_r2, [])"
  by (simp add: handlewginit_def hs_defs t_recs t_leaves)

section \<open>Comparison and lookup\<close>

lemma memcmp_append:
  "length t = length r \<Longrightarrow>
   memcmp (t @ z) (r @ q) (length t + n) = (if t = r then memcmp z q n else memcmp t r (length t))"
  by (induction t r rule: list_induct2) auto

lemma memcmp_zero_le: "memcmp (replicate n 0) q k \<le> 0"
proof (induction n arbitrary: q k)
  case 0
  then show ?case by simp
next
  case (Suc n)
  show ?case
  proof (cases q)
    case Nil
    then show ?thesis by simp
  next
    case (Cons y ys)
    then show ?thesis using Suc by (cases k) auto
  qed
qed

lemma memcmp_pos_lex:
  "length t = length r \<Longrightarrow> (0 < memcmp t r (length t)) = ts_less r t"
  unfolding ts_less_def
  by (induction t r rule: list_induct2) (auto simp: word_less_def)

lemma ts_less_irrefl: "\<not> ts_less r r"
  unfolding ts_less_def by (simp add: lexord_irreflexive)

text \<open>The replay check: with the 16 bytes of \<open>tmpts\<close> behind the timestamp zero, the
  comparison of 28 bytes decides as the comparison of the two timestamps, whatever
  lies behind \<open>recvts\<close>.\<close>

lemma replay_memcmp:
  assumes "length t = 12" "length r = 12"
  shows "(memcmp (t @ replicate 16 0) (r @ q) (12 + TAGLEN) \<le> 0) = (\<not> ts_less r t)"
proof -
  have "memcmp (t @ replicate 16 0) (r @ q) (length t + 16) =
        (if t = r then memcmp (replicate 16 0) q 16 else memcmp t r (length t))"
    using assms by (intro memcmp_append) simp
  moreover have "memcmp (replicate 16 0) q 16 \<le> 0" by (rule memcmp_zero_le)
  moreover have "(0 < memcmp t r (length t)) = ts_less r t"
    using assms by (intro memcmp_pos_lex) simp
  ultimately show ?thesis using assms ts_less_irrefl [of r] by (auto simp: not_less)
qed

lemma findfrom_Some:
  "findfrom f ps n = Some i \<Longrightarrow> n \<le> i \<and> i < n + length ps \<and> f (ps ! (i - n))"
proof (induction ps arbitrary: n)
  case Nil
  then show ?case by simp
next
  case (Cons a ps)
  show ?case
  proof (cases "f a")
    case True
    with Cons.prems show ?thesis by simp
  next
    case False
    with Cons.prems have "findfrom f ps (Suc n) = Some i" by simp
    from Cons.IH [OF this] show ?thesis by (auto simp: Suc_diff_le)
  qed
qed

lemma getpeer_setpeer: "j < length (ifn_peers ifn) \<Longrightarrow> getpeer (setpeer ifn j P) j = P"
  by (simp add: getpeer_def setpeer_def)

lemma hsinit_auth_responder:
  assumes "hsinit_auth pr m ifn mwi peer 1 = Inr (p, mwi1, tmph, tmpc, k)"
  shows "p < length (ifn_peers ifn) \<and> mwi1 = mwi \<and> (peer = None \<or> peer = Some p)"
  using assms
  by (auto simp: hsinit_auth_def hsinit_s_def findifnpeerbypubkey_def
      split: sum.splits option.splits if_splits prod.splits dest!: findfrom_Some)

lemma hsinit_auth_Inl:
  "hsinit_auth pr m ifn mwi peer responder = Inl (r, q) \<Longrightarrow> r = Return (- 1) \<or> r = Fault"
  by (auto simp: hsinit_auth_def hsinit_e_def hsinit_s_def hsinit_ss_def kdf1_eq kdfn_2 Let_def
      split: sum.splits option.splits if_splits prod.splits)

section \<open>Session keys: the order of the two keys\<close>

text \<open>
  C5. The message of \<open>makemsgsesskeys\<close> holds the two outputs \<open>k0\<close>, \<open>k1\<close> of \<open>kdfn\<close>
  without input under the chaining key: as (send key, receive key) for the initiator
  (\<open>responder = 0\<close>), as (receive key, send key) for the responder (\<open>responder = 1\<close>).
  When the two handshake states hold the same chaining key, the pair of the responder
  is the pair of the initiator swapped.
\<close>

theorem sesskeys_role_order:
  assumes "hs_c hsr = hs_c hsi"
  shows "\<exists>k0 k1. kdfn pr 2 None (hs_c hsi) = Some [k0, k1] \<and>
     makemsgsesskeys pr hsi 0 =
       Some \<lparr>msk_sessid = hs_sessid hsi, msk_peersessid = hs_peersessid hsi,
             msk_sendkey = k0, msk_recvkey = k1\<rparr> \<and>
     makemsgsesskeys pr hsr 1 =
       Some \<lparr>msk_sessid = hs_sessid hsr, msk_peersessid = hs_peersessid hsr,
             msk_sendkey = k1, msk_recvkey = k0\<rparr>"
  using assms by (simp add: makemsgsesskeys_def kdfn_2 Let_def)

theorem sesskeys_role_order_witness:
  "hs_c (p_hs (getpeer t_ifn_r2 1)) = hs_c (p_hs (getpeer t_ifn_i3 0)) \<and>
   kdfn t_prims 2 None (hs_c (p_hs (getpeer t_ifn_i3 0))) = Some [q_s0, q_s1] \<and> q_s0 \<noteq> q_s1 \<and>
   makemsgsesskeys t_prims (p_hs (getpeer t_ifn_i3 0)) 0 =
     Some \<lparr>msk_sessid = 4660, msk_peersessid = 22136, msk_sendkey = q_s0, msk_recvkey = q_s1\<rparr> \<and>
   makemsgsesskeys t_prims (p_hs (getpeer t_ifn_r2 1)) 1 =
     Some \<lparr>msk_sessid = 22136, msk_peersessid = 4660, msk_sendkey = q_s1, msk_recvkey = q_s0\<rparr>"
proof -
  have c: "hs_c (p_hs (getpeer t_ifn_r2 1)) = hs_c (p_hs (getpeer t_ifn_i3 0))"
    by (simp add: getpeer_def t_recs)
  have k: "kdfn t_prims 2 None (hs_c (p_hs (getpeer t_ifn_i3 0))) = Some [q_s0, q_s1]"
    by (simp add: getpeer_def t_recs t_leaves)
  have ne: "q_s0 \<noteq> q_s1"
    by (simp add: q_s0_def q_s1_def)
  from sesskeys_role_order [OF c, of t_prims] c k ne show ?thesis
    by (simp add: getpeer_def t_recs)
qed

section \<open>The replay check of the responder\<close>

text \<open>
  C1. A responder-side \<open>upgradehsinit\<close> that gets as far as the timestamp (the
  authentication before it succeeded for the peer \<open>p\<close>, and the AEAD opens the timestamp
  to the 12 bytes \<open>t\<close>) returns 0 if and only if \<open>t\<close> is strictly greater, in the
  lexicographic order of bytes, than the \<open>recvts\<close> of the peer. When it is, \<open>recvts\<close> of
  the peer is \<open>t\<close> afterwards, hence strictly greater than before; when it is not, the
  call returns -1 and the interface with all its peers is unchanged. The arrays have
  their declared sizes, and the 16 bytes of the static buffer \<open>tmpts\<close> behind the
  timestamp are zero, as they are from the start of the process (only 12 bytes are
  ever written to it).
\<close>

theorem replay_check:
  assumes auth: "hsinit_auth pr m ifn mwi peer 1 = Inr (p, mwi1, tmph, tmpc, k)"
    and opn: "EVP_open pr k tmph (mwi_timestamp mwi) = Some t"
    and t: "length t = 12"
    and tmpts: "length (m_tmpts m) = 12 + TAGLEN" "drop 12 (m_tmpts m) = replicate TAGLEN 0"
    and recvts: "length (p_recvts (getpeer ifn p)) = 12"
  shows "(fst (upgradehsinit pr m ifn mwi peer 1) = Return 0) = ts_less (p_recvts (getpeer ifn p)) t
    \<and> (ts_less (p_recvts (getpeer ifn p)) t \<longrightarrow>
         (\<exists>ifn'. upgradehsinit pr m ifn mwi peer 1 = (Return 0, ifn', mwi, Some p) \<and>
            p_recvts (getpeer ifn' p) = t \<and>
            ts_less (p_recvts (getpeer ifn p)) (p_recvts (getpeer ifn' p))))
    \<and> (\<not> ts_less (p_recvts (getpeer ifn p)) t \<longrightarrow>
         upgradehsinit pr m ifn mwi peer 1 = (Return (- 1), ifn, mwi, Some p))"
proof -
  from hsinit_auth_responder [OF auth]
  have p: "p < length (ifn_peers ifn)" and mwi1: "mwi1 = mwi" by simp_all
  have a: "aead pr (m_tmpts m) (12 + TAGLEN) (mwi_timestamp mwi) k tmph 1 =
      Some (t @ replicate TAGLEN 0)"
    using opn t tmpts by (simp add: aead_def memcpy_def)
  have cmp: "(memcmp (t @ replicate 16 0) (p_recvts (getpeer ifn p) @ m_past m) (12 + TAGLEN) \<le> 0)
      = (\<not> ts_less (p_recvts (getpeer ifn p)) t)"
    using t recvts by (rule replay_memcmp)
  have cpy: "memcpy (p_recvts (getpeer ifn p)) (t @ replicate TAGLEN 0) (min 12 (12 + TAGLEN)) = t"
    using t recvts by (simp add: memcpy_def)
  show ?thesis
  proof (cases "ts_less (p_recvts (getpeer ifn p)) t")
    case True
    with cmp have "\<not> memcmp (t @ replicate 16 0) (p_recvts (getpeer ifn p) @ m_past m) (12 + TAGLEN) \<le> 0"
      by simp
    with True show ?thesis
      using auth a cpy p
      by (simp add: upgradehsinit_def mwi1 Let_def getpeer_setpeer del: memcmp.simps)
  next
    case False
    with cmp have "memcmp (t @ replicate 16 0) (p_recvts (getpeer ifn p) @ m_past m) (12 + TAGLEN) \<le> 0"
      by simp
    with False show ?thesis
      using auth a
      by (simp add: upgradehsinit_def mwi1 del: memcmp.simps)
  qed
qed

text \<open>The instance: the initiation of the handshake is accepted by the responder, whose
  \<open>recvts\<close> for the peer is zero, and \<open>recvts\<close> becomes the timestamp; the same message
  once more is rejected and nothing changes.\<close>

theorem replay_check_witness:
  "hsinit_auth t_prims t_mem t_ifn_r t_init None 1 = Inr (1, t_init, i_h1, i_c2, i_k2) \<and>
   EVP_open t_prims i_k2 i_h1 (mwi_timestamp t_init) = Some t_tai \<and>
   p_recvts (getpeer t_ifn_r 1) = t_zero12 \<and> ts_less t_zero12 t_tai \<and>
   upgradehsinit t_prims t_mem t_ifn_r t_init None 1 = (Return 0, t_ifn_r1, t_init, Some 1) \<and>
   p_recvts (getpeer t_ifn_r1 1) = t_tai \<and>
   hsinit_auth t_prims t_mem t_ifn_r1 t_init None 1 = Inr (1, t_init, i_h1, i_c2, i_k2) \<and>
   \<not> ts_less t_tai t_tai \<and>
   upgradehsinit t_prims t_mem t_ifn_r1 t_init None 1 = (Return (- 1), t_ifn_r1, t_init, Some 1)"
proof -
  have auth1: "hsinit_auth t_prims t_mem t_ifn_r1 t_init None 1 = Inr (1, t_init, i_h1, i_c2, i_k2)"
    by (simp add: hs_defs t_recs t_leaves)
  have opn: "EVP_open t_prims i_k2 i_h1 (mwi_timestamp t_init) = Some t_tai"
    by (simp add: t_recs t_leaves)
  have len: "length t_tai = 12" "length (m_tmpts t_mem) = 12 + TAGLEN"
    "drop 12 (m_tmpts t_mem) = replicate TAGLEN 0"
    by (simp_all add: t_tai_def t_mem_def t_zero28_def)
  have r0: "p_recvts (getpeer t_ifn_r 1) = t_zero12" "p_recvts (getpeer t_ifn_r1 1) = t_tai"
    by (simp_all add: getpeer_def t_recs)
  have l0: "length (p_recvts (getpeer t_ifn_r 1)) = 12" "length (p_recvts (getpeer t_ifn_r1 1)) = 12"
    unfolding r0 by (simp_all add: t_zero12_def t_tai_def)
  note a = replay_check [OF t_hsinit_auth opn len l0(1), unfolded r0]
  note b = replay_check [OF auth1 opn len l0(2), unfolded r0]
  from a t_upgradehsinit have acc: "ts_less t_zero12 t_tai" by simp
  from b have rej: "upgradehsinit t_prims t_mem t_ifn_r1 t_init None 1 =
      (Return (- 1), t_ifn_r1, t_init, Some 1)"
    by (simp add: ts_less_irrefl)
  from acc rej auth1 opn r0 t_hsinit_auth t_upgradehsinit show ?thesis
    by (simp add: ts_less_irrefl)
qed

section \<open>Failing calls and the state of the peers\<close>

lemma upgradehsinit_cases:
  "fst (upgradehsinit pr m ifn mwi peer responder) = Return 0 \<or>
   fst (snd (upgradehsinit pr m ifn mwi peer responder)) = ifn"
  by (simp add: upgradehsinit_def Let_def split: sum.split prod.split option.split)

lemma upgradehsresp_cases:
  "fst (upgradehsresp pr m ifn j mwr responder) = Return 0 \<or>
   fst (upgradehsresp pr m ifn j mwr responder) = Return (- 1) \<and>
   fst (snd (upgradehsresp pr m ifn j mwr responder)) = ifn"
  by (simp add: upgradehsresp_def kdf1_eq kdfn_3 Let_def split: prod.split option.split)

lemma upgradehsinit_fail:
  "fst (upgradehsinit pr m ifn mwi peer responder) \<noteq> Return 0 \<Longrightarrow>
   fst (snd (upgradehsinit pr m ifn mwi peer responder)) = ifn"
  using upgradehsinit_cases [of pr m ifn mwi peer responder] by simp

lemma upgradehsresp_fail:
  "fst (upgradehsresp pr m ifn j mwr responder) \<noteq> Return 0 \<Longrightarrow>
   fst (snd (upgradehsresp pr m ifn j mwr responder)) = ifn"
  using upgradehsresp_cases [of pr m ifn j mwr responder] by simp

lemma handlewginit_fail:
  assumes "\<not> ws_validmac pr (mwi_mac1 (msg_mwi msg)) (msga_init (msg_mwi msg)) (ifn_mac1key ifn) \<or>
      fst (upgradehsinit pr m ifn (msg_mwi msg) peer 1) \<noteq> Return 0"
  shows "fst (handlewginit pr m e ifn peer addrs msg) \<noteq> Return 0 \<and>
    fst (snd (handlewginit pr m e ifn peer addrs msg)) = ifn"
proof (cases "ws_validmac pr (mwi_mac1 (msg_mwi msg)) (msga_init (msg_mwi msg)) (ifn_mac1key ifn)")
  case False
  then show ?thesis by (simp add: handlewginit_def)
next
  case True
  with assms have f: "fst (upgradehsinit pr m ifn (msg_mwi msg) peer 1) \<noteq> Return 0" by simp
  obtain r ifn1 mwi1 peer1 where
    u: "upgradehsinit pr m ifn (msg_mwi msg) peer 1 = (r, ifn1, mwi1, peer1)"
    by (cases "upgradehsinit pr m ifn (msg_mwi msg) peer 1") auto
  from upgradehsinit_fail [OF f] u f have "ifn1 = ifn" "r \<noteq> Return 0" by simp_all
  with True u show ?thesis by (simp add: handlewginit_def)
qed

lemma handlewgresp_fail:
  assumes "\<not> ws_validmac pr (mwr_mac1 (msg_mwr msg)) (msga_resp (msg_mwr msg)) (ifn_mac1key ifn) \<or>
      findifnpeerbysessid ifn (mwr_receiver (msg_mwr msg)) = None \<or>
      (\<exists>p q. findifnpeerbysessid ifn (mwr_receiver (msg_mwr msg)) = Some p \<and> peer = Some q \<and>
         p_id (getpeer ifn q) \<noteq> p_id (getpeer ifn p)) \<or>
      (\<exists>p. findifnpeerbysessid ifn (mwr_receiver (msg_mwr msg)) = Some p \<and>
         fst (upgradehsresp pr m ifn p (msg_mwr msg) 0) \<noteq> Return 0)"
  shows "fst (handlewgresp pr m e ifn peer addrs msg) \<noteq> Return 0 \<and>
    fst (snd (handlewgresp pr m e ifn peer addrs msg)) = ifn"
proof (cases "ws_validmac pr (mwr_mac1 (msg_mwr msg)) (msga_resp (msg_mwr msg)) (ifn_mac1key ifn)")
  case False
  then show ?thesis by (simp add: handlewgresp_def)
next
  case mac: True
  show ?thesis
  proof (cases "findifnpeerbysessid ifn (mwr_receiver (msg_mwr msg))")
    case None
    with mac show ?thesis by (simp add: handlewgresp_def)
  next
    case (Some p)
    show ?thesis
    proof (cases "case peer of None \<Rightarrow> False
        | Some q \<Rightarrow> p_id (getpeer ifn q) \<noteq> p_id (getpeer ifn p)")
      case True
      with mac Some show ?thesis by (simp add: handlewgresp_def)
    next
      case False
      with assms mac Some have f: "fst (upgradehsresp pr m ifn p (msg_mwr msg) 0) \<noteq> Return 0"
        by (auto split: option.splits)
      obtain r ifn1 mwr1 where u: "upgradehsresp pr m ifn p (msg_mwr msg) 0 = (r, ifn1, mwr1)"
        by (cases "upgradehsresp pr m ifn p (msg_mwr msg) 0") auto
      from upgradehsresp_cases [of pr m ifn p "msg_mwr msg" 0] f u
      have "r = Return (- 1)" "ifn1 = ifn" by simp_all
      with mac Some False u show ?thesis by (simp add: handlewgresp_def)
    qed
  qed
qed

text \<open>
  C2, as the code has it. A failing \<open>upgradehsinit\<close> or \<open>upgradehsresp\<close>, in either
  role, leaves the interface with all its peers as it was, in particular the chaining
  key, the hash and \<open>recvts\<close> of every peer. So does a \<open>handlewginit\<close> that fails at the
  \<open>mac1\<close> check or in \<open>upgradehsinit\<close> (AEAD open, Diffie-Hellman, unknown peer, another
  peer than the asserted one, replay), and a \<open>handlewgresp\<close> that fails at the \<open>mac1\<close>
  check, at the lookup of the receiver, at the comparison with the asserted peer or in
  \<open>upgradehsresp\<close>.
\<close>

theorem failing_call_keeps_peers:
  "(fst (upgradehsinit pr m ifn mwi peer responder) \<noteq> Return 0 \<longrightarrow>
      fst (snd (upgradehsinit pr m ifn mwi peer responder)) = ifn) \<and>
   (fst (upgradehsresp pr m ifn j mwr responder) \<noteq> Return 0 \<longrightarrow>
      fst (snd (upgradehsresp pr m ifn j mwr responder)) = ifn) \<and>
   (\<not> ws_validmac pr (mwi_mac1 (msg_mwi msg)) (msga_init (msg_mwi msg)) (ifn_mac1key ifn) \<or>
      fst (upgradehsinit pr m ifn (msg_mwi msg) peer 1) \<noteq> Return 0 \<longrightarrow>
      fst (handlewginit pr m e ifn peer addrs msg) \<noteq> Return 0 \<and>
      fst (snd (handlewginit pr m e ifn peer addrs msg)) = ifn) \<and>
   (\<not> ws_validmac pr (mwr_mac1 (msg_mwr msg)) (msga_resp (msg_mwr msg)) (ifn_mac1key ifn) \<or>
      findifnpeerbysessid ifn (mwr_receiver (msg_mwr msg)) = None \<or>
      (\<exists>p q. findifnpeerbysessid ifn (mwr_receiver (msg_mwr msg)) = Some p \<and> peer = Some q \<and>
         p_id (getpeer ifn q) \<noteq> p_id (getpeer ifn p)) \<or>
      (\<exists>p. findifnpeerbysessid ifn (mwr_receiver (msg_mwr msg)) = Some p \<and>
         fst (upgradehsresp pr m ifn p (msg_mwr msg) 0) \<noteq> Return 0) \<longrightarrow>
      fst (handlewgresp pr m e ifn peer addrs msg) \<noteq> Return 0 \<and>
      fst (snd (handlewgresp pr m e ifn peer addrs msg)) = ifn)"
  using upgradehsinit_fail [of pr m ifn mwi peer responder]
    upgradehsresp_fail [of pr m ifn j mwr responder]
    handlewginit_fail [of pr msg ifn m peer e addrs]
    handlewgresp_fail [of pr msg ifn peer m e addrs]
  by blast

text \<open>The instance: the replayed initiation at the responder, through \<open>upgradehsinit\<close>
  and through \<open>handlewginit\<close>; the response with a corrupted \<open>empty\<close> field at the
  initiator, through \<open>upgradehsresp\<close> and through \<open>handlewgresp\<close>.\<close>

theorem failing_call_keeps_peers_witness:
  "fst (upgradehsinit t_prims t_mem t_ifn_r1 t_init None 1) \<noteq> Return 0 \<and>
   fst (snd (upgradehsinit t_prims t_mem t_ifn_r1 t_init None 1)) = t_ifn_r1 \<and>
   fst (upgradehsresp t_prims t_mem t_ifn_i1 0 (t_resp\<lparr>mwr_empty := t_zero16\<rparr>) 0) \<noteq> Return 0 \<and>
   fst (snd (upgradehsresp t_prims t_mem t_ifn_i1 0 (t_resp\<lparr>mwr_empty := t_zero16\<rparr>) 0)) = t_ifn_i1 \<and>
   fst (snd (handlewginit t_prims t_mem t_env_r t_ifn_r1 None None
     \<lparr>msg_mwi = t_init, msg_mwr = t_mwr0\<rparr>)) = t_ifn_r1 \<and>
   findifnpeerbysessid t_ifn_i1 (mwr_receiver t_resp) = Some 0 \<and>
   fst (snd (handlewgresp t_prims t_mem t_env_i t_ifn_i1 (Some 0) None
     \<lparr>msg_mwi = t_mwi0, msg_mwr = t_resp\<lparr>mwr_empty := t_zero16\<rparr>\<rparr>)) = t_ifn_i1"
proof -
  have a: "fst (upgradehsinit t_prims t_mem t_ifn_r1 t_init None 1) \<noteq> Return 0"
    by (simp add: t_upgradehsinit_replay)
  have b: "fst (upgradehsresp t_prims t_mem t_ifn_i1 0 (t_resp\<lparr>mwr_empty := t_zero16\<rparr>) 0) \<noteq> Return 0"
    by (simp add: t_upgradehsresp_bad)
  have f: "findifnpeerbysessid t_ifn_i1 (mwr_receiver t_resp) = Some 0"
    by (simp add: findifnpeerbysessid_def t_recs)
  from failing_call_keeps_peers [of t_prims t_mem t_ifn_r1 t_init None 1 0 t_mwr0
      "\<lparr>msg_mwi = t_init, msg_mwr = t_mwr0\<rparr>" t_env_r None] a
  have 1: "fst (snd (upgradehsinit t_prims t_mem t_ifn_r1 t_init None 1)) = t_ifn_r1"
    and 2: "fst (snd (handlewginit t_prims t_mem t_env_r t_ifn_r1 None None
      \<lparr>msg_mwi = t_init, msg_mwr = t_mwr0\<rparr>)) = t_ifn_r1"
    by simp_all
  from failing_call_keeps_peers [of t_prims t_mem t_ifn_i1 t_mwi0 "Some 0" 0 0
      "t_resp\<lparr>mwr_empty := t_zero16\<rparr>"
      "\<lparr>msg_mwi = t_mwi0, msg_mwr = t_resp\<lparr>mwr_empty := t_zero16\<rparr>\<rparr>" t_env_i None] b f
  have 3: "fst (snd (upgradehsresp t_prims t_mem t_ifn_i1 0 (t_resp\<lparr>mwr_empty := t_zero16\<rparr>) 0)) = t_ifn_i1"
    and 4: "fst (snd (handlewgresp t_prims t_mem t_env_i t_ifn_i1 (Some 0) None
      \<lparr>msg_mwi = t_mwi0, msg_mwr = t_resp\<lparr>mwr_empty := t_zero16\<rparr>\<rparr>)) = t_ifn_i1"
    by (simp_all add: t_resp_def)
  from a b f 1 2 3 4 show ?thesis by simp
qed

text \<open>
  The claim as stated fails for \<open>handlewginit\<close>: the initiation \<open>t_init_z\<close> in the name
  of the peer with the all-zero key authenticates, \<open>upgradehsinit\<close> stores chaining key,
  hash and \<open>recvts\<close>, and then \<open>createhsresp\<close> fails because the Diffie-Hellman result
  with the static key of that peer is zero: \<open>handlewginit\<close> returns -1 and the three
  fields of the peer have changed. The same holds when the handshake of the instance
  succeeds and sending the session keys fails.
\<close>

theorem failing_handlewginit_counterexample:
  "dh t_prims (snd (e_keypair t_env_r)) (p_pubkey (getpeer t_ifn_r 0)) = (- 1, t_zero32) \<and>
   handlewginit t_prims t_mem t_env_r t_ifn_r None None \<lparr>msg_mwi = t_init_z, msg_mwr = t_mwr0\<rparr> =
     (Return (- 1), t_ifn_z2, []) \<and>
   hs_c (p_hs (getpeer t_ifn_z2 0)) \<noteq> hs_c (p_hs (getpeer t_ifn_r 0)) \<and>
   hs_h (p_hs (getpeer t_ifn_z2 0)) \<noteq> hs_h (p_hs (getpeer t_ifn_r 0)) \<and>
   p_recvts (getpeer t_ifn_z2 0) \<noteq> p_recvts (getpeer t_ifn_r 0) \<and>
   handlewginit t_prims t_mem t_env_f t_ifn_r None None \<lparr>msg_mwi = t_init, msg_mwr = t_mwr0\<rparr> =
     (Return (- 1), t_ifn_r2, []) \<and>
   hs_c (p_hs (getpeer t_ifn_r2 1)) \<noteq> hs_c (p_hs (getpeer t_ifn_r 1)) \<and>
   hs_h (p_hs (getpeer t_ifn_r2 1)) \<noteq> hs_h (p_hs (getpeer t_ifn_r 1)) \<and>
   p_recvts (getpeer t_ifn_r2 1) \<noteq> p_recvts (getpeer t_ifn_r 1)"
proof -
  have ne: "z_c2 \<noteq> t_zero32" "z_h2 \<noteq> t_zero32" "t_tai \<noteq> t_zero12" "q_c3 \<noteq> t_zero32"
    "i_h2 \<noteq> t_zero32"
    by code_simp+
  have d: "dh t_prims (snd (e_keypair t_env_r)) (p_pubkey (getpeer t_ifn_r 0)) = (- 1, t_zero32)"
    by (simp add: getpeer_def t_recs t_leaves)
  from ne d t_handlewginit_z t_handlewginit_f show ?thesis
    by (simp add: getpeer_def t_recs)
qed

section \<open>The initiation: both sides reach the same chaining key and hash\<close>

text \<open>What a successful \<open>upgradehsinit\<close> stores, in terms of the values of
  \<open>hsinit_auth\<close>.\<close>

lemma upgradehsinit_responder_ok:
  assumes "upgradehsinit pr m ifn mwi peer 1 = (Return 0, ifn', mwi', Some p)"
  shows "\<exists>tmph tmpc k. hsinit_auth pr m ifn mwi peer 1 = Inr (p, mwi, tmph, tmpc, k) \<and>
     hs_c (p_hs (getpeer ifn' p)) = tmpc \<and>
     hs_h (p_hs (getpeer ifn' p)) = appendhash pr tmph (mwi_timestamp mwi)"
proof (cases "hsinit_auth pr m ifn mwi peer 1")
  case (Inl a)
  with assms hsinit_auth_Inl [of pr m ifn mwi _ _ "fst a" "snd a"] show ?thesis
    by (auto simp: upgradehsinit_def split: prod.splits)
next
  case (Inr b)
  then obtain q mwi1 tmph tmpc k where
    b: "hsinit_auth pr m ifn mwi peer 1 = Inr (q, mwi1, tmph, tmpc, k)"
    by (cases b) auto
  from hsinit_auth_responder [OF b] have q: "q < length (ifn_peers ifn)" "mwi1 = mwi" by simp_all
  from assms b q show ?thesis
    by (auto simp: upgradehsinit_def Let_def getpeer_setpeer split: option.splits if_splits)
qed

lemma hsinit_auth_initiator:
  assumes "hsinit_auth pr m ifn mwi (Some j) 0 = Inr (p, mwi1, tmph, tmpc, k)"
  shows "p = j \<and> mwi_ephemeral mwi1 = mwi_ephemeral mwi \<and> mwi_timestamp mwi1 = mwi_timestamp mwi"
  using assms
  by (auto simp: hsinit_auth_def hsinit_s_def
      split: sum.splits option.splits if_splits prod.splits)

lemma upgradehsinit_initiator_ok:
  assumes "upgradehsinit pr m ifn mwi (Some j) 0 = (Return 0, ifn', mwi', peer')"
    and "j < length (ifn_peers ifn)"
  shows "\<exists>mwi1 tmph tmpc k. hsinit_auth pr m ifn mwi (Some j) 0 = Inr (j, mwi1, tmph, tmpc, k) \<and>
     hs_c (p_hs (getpeer ifn' j)) = tmpc \<and>
     hs_h (p_hs (getpeer ifn' j)) = appendhash pr tmph (mwi_timestamp mwi') \<and>
     mwi_ephemeral mwi' = mwi_ephemeral mwi \<and> mwi_stat mwi' = mwi_stat mwi1 \<and>
     p_mac1key (getpeer ifn' j) = p_mac1key (getpeer ifn j)"
proof (cases "hsinit_auth pr m ifn mwi (Some j) 0")
  case (Inl a)
  with assms hsinit_auth_Inl [of pr m ifn mwi _ _ "fst a" "snd a"] show ?thesis
    by (auto simp: upgradehsinit_def split: prod.splits)
next
  case (Inr b)
  then obtain q mwi1 tmph tmpc k where
    b: "hsinit_auth pr m ifn mwi (Some j) 0 = Inr (q, mwi1, tmph, tmpc, k)"
    by (cases b) auto
  from hsinit_auth_initiator [OF b] have q: "q = j" "mwi_ephemeral mwi1 = mwi_ephemeral mwi"
    by simp_all
  from assms b q show ?thesis
    by (auto simp: upgradehsinit_def Let_def getpeer_setpeer split: option.splits if_splits)
qed

lemma hsinit_auth_values:
  assumes "hsinit_auth pr m ifn mwi peer responder = Inr (p, mwi1, tmph, tmpc, k)"
  shows "tmph = init_h pr (if responder \<noteq> 0 then ifn_pubkeyhash ifn
                          else p_pubkeyhash (getpeer ifn (the peer)))
                 (mwi_ephemeral mwi) (mwi_stat mwi1) \<and>
         tmpc = init_c pr (m_conshash m) (mwi_ephemeral mwi)
                 (snd (if responder \<noteq> 0 then X25519 pr (ifn_privkey ifn) (mwi_ephemeral mwi)
                       else X25519 pr (hs_epriv (p_hs (getpeer ifn (the peer))))
                              (p_pubkey (getpeer ifn (the peer)))))
                 (p_dhsecret (getpeer ifn p))"
  using assms
  by (auto simp: hsinit_auth_def hsinit_e_def hsinit_ss_def init_h_def init_c_def dh_def
      kdf1_eq kdfn_2 Let_def
      split: sum.splits option.splits if_splits prod.splits)

text \<open>
  C3. The initiator runs \<open>createhsinit\<close> for its peer \<open>j\<close> and the responder a
  successful \<open>upgradehsinit\<close> on the message produced, which resolves to its peer \<open>p\<close>.
  The two are configured for each other: the same construction hash, the public key
  hash the initiator holds for its peer is the one of the responder's interface, the
  static-static secrets are the same, and the Diffie-Hellman results of the ephemeral
  and the static key pair agree. Then the two handshake states hold the same chaining
  key and the same hash.
\<close>

theorem init_same_c_h:
  assumes init: "createhsinit pr mi e ifni j mwi0 = (Return 0, ifni', mwi)"
    and resp: "upgradehsinit pr mr ifnr mwi peer 1 = (Return 0, ifnr', mwi', Some p)"
    and j: "j < length (ifn_peers ifni)"
    and cons: "m_conshash mr = m_conshash mi"
    and pkh: "ifn_pubkeyhash ifnr = p_pubkeyhash (getpeer ifni j)"
    and dhs: "p_dhsecret (getpeer ifnr p) = p_dhsecret (getpeer ifni j)"
    and dh: "X25519 pr (ifn_privkey ifnr) (fst (e_keypair e)) =
             X25519 pr (snd (e_keypair e)) (p_pubkey (getpeer ifni j))"
  shows "hs_c (p_hs (getpeer ifnr' p)) = hs_c (p_hs (getpeer ifni' j)) \<and>
         hs_h (p_hs (getpeer ifnr' p)) = hs_h (p_hs (getpeer ifni' j))"
proof -
  define P where "P = getpeer ifni j"
  define ifn1 where "ifn1 = setpeer ifni j
    (P\<lparr>p_hs := (p_hs P)\<lparr>hs_sessid := e_arc4random e, hs_epriv := snd (e_keypair e)\<rparr>\<rparr>)"
  define mwi1 where "mwi1 = mwi0\<lparr>mwi_type := 1, mwi_sender := e_arc4random e,
    mwi_ephemeral := fst (e_keypair e)\<rparr>"
  from init obtain ts mwi2 peer' where
    ts: "e_tai64n e = Some ts"
    and u: "upgradehsinit pr mi ifn1
          (mwi1\<lparr>mwi_timestamp := memcpy (mwi_timestamp mwi1) ts (12 + TAGLEN - TAGLEN)\<rparr>)
          (Some j) 0 = (Return 0, ifni', mwi2, peer')"
    and m: "mwi_ephemeral mwi = mwi_ephemeral mwi2" "mwi_stat mwi = mwi_stat mwi2"
      "mwi_timestamp mwi = mwi_timestamp mwi2"
    by (auto simp: createhsinit_def Let_def P_def ifn1_def mwi1_def
        split: option.splits prod.splits if_splits)
  have j1: "j < length (ifn_peers ifn1)" using j by (simp add: ifn1_def setpeer_def)
  have g1: "getpeer ifn1 j =
      P\<lparr>p_hs := (p_hs P)\<lparr>hs_sessid := e_arc4random e, hs_epriv := snd (e_keypair e)\<rparr>\<rparr>"
    using j by (simp add: ifn1_def getpeer_setpeer)
  from upgradehsinit_initiator_ok [OF u j1] obtain mwi3 tmph tmpc k where
    ai: "hsinit_auth pr mi ifn1
          (mwi1\<lparr>mwi_timestamp := memcpy (mwi_timestamp mwi1) ts (12 + TAGLEN - TAGLEN)\<rparr>)
          (Some j) 0 = Inr (j, mwi3, tmph, tmpc, k)"
    and ci: "hs_c (p_hs (getpeer ifni' j)) = tmpc"
    and hi: "hs_h (p_hs (getpeer ifni' j)) = appendhash pr tmph (mwi_timestamp mwi2)"
    and e2: "mwi_ephemeral mwi2 = fst (e_keypair e)"
    and s2: "mwi_stat mwi2 = mwi_stat mwi3"
    by (auto simp: mwi1_def)
  from upgradehsinit_responder_ok [OF resp] obtain tmph' tmpc' k' where
    ar: "hsinit_auth pr mr ifnr mwi peer 1 = Inr (p, mwi, tmph', tmpc', k')"
    and cr: "hs_c (p_hs (getpeer ifnr' p)) = tmpc'"
    and hr: "hs_h (p_hs (getpeer ifnr' p)) = appendhash pr tmph' (mwi_timestamp mwi)"
    by auto
  from hsinit_auth_values [OF ai] g1
  have vi: "tmph = init_h pr (p_pubkeyhash P) (fst (e_keypair e)) (mwi_stat mwi3)"
     "tmpc = init_c pr (m_conshash mi) (fst (e_keypair e))
        (snd (X25519 pr (snd (e_keypair e)) (p_pubkey P))) (p_dhsecret P)"
    by (simp_all add: mwi1_def)
  from hsinit_auth_values [OF ar]
  have vr: "tmph' = init_h pr (ifn_pubkeyhash ifnr) (mwi_ephemeral mwi) (mwi_stat mwi)"
     "tmpc' = init_c pr (m_conshash mr) (mwi_ephemeral mwi)
        (snd (X25519 pr (ifn_privkey ifnr) (mwi_ephemeral mwi))) (p_dhsecret (getpeer ifnr p))"
    by simp_all
  from vi vr ci hi cr hr m e2 s2 cons pkh dhs dh show ?thesis
    by (simp add: P_def)
qed

text \<open>The instance: the handshake between \<open>t_ifn_i\<close> and \<open>t_ifn_r\<close>.\<close>

theorem init_same_c_h_witness:
  "createhsinit t_prims t_mem t_env_i t_ifn_i 0 t_mwi0 = (Return 0, t_ifn_i1, t_init) \<and>
   upgradehsinit t_prims t_mem t_ifn_r t_init None 1 = (Return 0, t_ifn_r1, t_init, Some 1) \<and>
   ifn_pubkeyhash t_ifn_r = p_pubkeyhash (getpeer t_ifn_i 0) \<and>
   p_dhsecret (getpeer t_ifn_r 1) = p_dhsecret (getpeer t_ifn_i 0) \<and>
   X25519 t_prims (ifn_privkey t_ifn_r) (fst (e_keypair t_env_i)) =
     X25519 t_prims (snd (e_keypair t_env_i)) (p_pubkey (getpeer t_ifn_i 0)) \<and>
   hs_c (p_hs (getpeer t_ifn_r1 1)) = hs_c (p_hs (getpeer t_ifn_i1 0)) \<and>
   hs_h (p_hs (getpeer t_ifn_r1 1)) = hs_h (p_hs (getpeer t_ifn_i1 0))"
proof -
  have j: "0 < length (ifn_peers t_ifn_i)" by (simp add: t_recs)
  have pkh: "ifn_pubkeyhash t_ifn_r = p_pubkeyhash (getpeer t_ifn_i 0)"
    and dhs: "p_dhsecret (getpeer t_ifn_r 1) = p_dhsecret (getpeer t_ifn_i 0)"
    by (simp_all add: getpeer_def t_recs)
  have dh: "X25519 t_prims (ifn_privkey t_ifn_r) (fst (e_keypair t_env_i)) =
     X25519 t_prims (snd (e_keypair t_env_i)) (p_pubkey (getpeer t_ifn_i 0))"
    by code_simp
  from init_same_c_h [OF t_createhsinit t_upgradehsinit j refl pkh dhs dh]
    t_createhsinit t_upgradehsinit pkh dhs dh
  show ?thesis by simp
qed

section \<open>The response: both sides reach the same chaining key and hash\<close>

lemma upgradehsresp_ok:
  assumes "j < length (ifn_peers ifn)"
  shows "fst (upgradehsresp pr m ifn j mwr responder) = Return 0 \<longrightarrow>
     hs_c (p_hs (getpeer (fst (snd (upgradehsresp pr m ifn j mwr responder))) j)) =
       resp_c pr (hs_c (p_hs (getpeer ifn j))) (mwr_ephemeral mwr)
         (snd (if responder \<noteq> 0
               then X25519 pr (hs_epriv (p_hs (getpeer ifn j))) (hs_epubi (p_hs (getpeer ifn j)))
               else X25519 pr (hs_epriv (p_hs (getpeer ifn j))) (mwr_ephemeral mwr)))
         (snd (if responder \<noteq> 0
               then X25519 pr (hs_epriv (p_hs (getpeer ifn j))) (p_pubkey (getpeer ifn j))
               else X25519 pr (ifn_privkey ifn) (mwr_ephemeral mwr)))
         (p_psk (getpeer ifn j)) \<and>
     hs_h (p_hs (getpeer (fst (snd (upgradehsresp pr m ifn j mwr responder))) j)) =
       hs_h (p_hs (getpeer ifn j)) \<and>
     mwr_ephemeral (snd (snd (upgradehsresp pr m ifn j mwr responder))) = mwr_ephemeral mwr"
  using assms
  by (simp add: upgradehsresp_def kdf1_eq kdfn_3 resp_c_def dh_def Let_def getpeer_setpeer
      split: prod.split option.split)

text \<open>
  C4. The two handshake states agree after the initiation (same chaining key and
  hash), the peers hold the same pre-shared key, and the Diffie-Hellman results of the
  responder's new ephemeral key with the initiator's ephemeral and static key agree on
  the two sides. The responder runs \<open>createhsresp\<close> for its peer \<open>p\<close>, the initiator a
  successful \<open>upgradehsresp\<close> with \<open>responder = 0\<close> on the message produced, for its
  peer \<open>j\<close>. Then the two handshake states hold the same chaining key and the same hash.
\<close>

theorem resp_same_c_h:
  assumes cr: "createhsresp pr mr e ifnr p mwr0 mwi = (Return 0, ifnr', mwr)"
    and ur: "upgradehsresp pr mi ifni j mwr 0 = (Return 0, ifni', mwr')"
    and p: "p < length (ifn_peers ifnr)"
    and j: "j < length (ifn_peers ifni)"
    and c: "hs_c (p_hs (getpeer ifnr p)) = hs_c (p_hs (getpeer ifni j))"
    and h: "hs_h (p_hs (getpeer ifnr p)) = hs_h (p_hs (getpeer ifni j))"
    and psk: "p_psk (getpeer ifnr p) = p_psk (getpeer ifni j)"
    and dh1: "X25519 pr (snd (e_keypair e)) (hs_epubi (p_hs (getpeer ifnr p))) =
              X25519 pr (hs_epriv (p_hs (getpeer ifni j))) (fst (e_keypair e))"
    and dh2: "X25519 pr (snd (e_keypair e)) (p_pubkey (getpeer ifnr p)) =
              X25519 pr (ifn_privkey ifni) (fst (e_keypair e))"
  shows "hs_c (p_hs (getpeer ifnr' p)) = hs_c (p_hs (getpeer ifni' j)) \<and>
         hs_h (p_hs (getpeer ifnr' p)) = hs_h (p_hs (getpeer ifni' j))"
proof -
  define P where "P = getpeer ifnr p"
  define hs1 where "hs1 = (p_hs P)\<lparr>hs_sessid := e_arc4random e, hs_peersessid := mwi_sender mwi,
    hs_epriv := snd (e_keypair e)\<rparr>"
  define ifn1 where "ifn1 = setpeer ifnr p (P\<lparr>p_hs := hs1\<rparr>)"
  define mwr1 where "mwr1 = mwr0\<lparr>mwr_type := 2, mwr_sender := hs_sessid hs1,
    mwr_receiver := hs_peersessid hs1, mwr_ephemeral := fst (e_keypair e)\<rparr>"
  from cr obtain mwr2 where
    u: "upgradehsresp pr mr ifn1 p mwr1 1 = (Return 0, ifnr', mwr2)"
    and e2: "mwr_ephemeral mwr = mwr_ephemeral mwr2"
    by (auto simp: createhsresp_def Let_def P_def hs1_def ifn1_def mwr1_def
        split: option.splits prod.splits if_splits)
  have p1: "p < length (ifn_peers ifn1)" using p by (simp add: ifn1_def setpeer_def)
  have g1: "getpeer ifn1 p = P\<lparr>p_hs := hs1\<rparr>" using p by (simp add: ifn1_def getpeer_setpeer)
  from upgradehsresp_ok [OF p1, of pr mr mwr1 1] u g1
  have r: "hs_c (p_hs (getpeer ifnr' p)) =
      resp_c pr (hs_c (p_hs P)) (fst (e_keypair e))
        (snd (X25519 pr (snd (e_keypair e)) (hs_epubi (p_hs P))))
        (snd (X25519 pr (snd (e_keypair e)) (p_pubkey P))) (p_psk P)"
    "hs_h (p_hs (getpeer ifnr' p)) = hs_h (p_hs P)"
    "mwr_ephemeral mwr2 = fst (e_keypair e)"
    by (simp_all add: hs1_def mwr1_def)
  from upgradehsresp_ok [OF j, of pr mi mwr 0] ur
  have i: "hs_c (p_hs (getpeer ifni' j)) =
      resp_c pr (hs_c (p_hs (getpeer ifni j))) (mwr_ephemeral mwr)
        (snd (X25519 pr (hs_epriv (p_hs (getpeer ifni j))) (mwr_ephemeral mwr)))
        (snd (X25519 pr (ifn_privkey ifni) (mwr_ephemeral mwr))) (p_psk (getpeer ifni j))"
    "hs_h (p_hs (getpeer ifni' j)) = hs_h (p_hs (getpeer ifni j))"
    by simp_all
  from r i e2 c h psk dh1 dh2 show ?thesis by (simp add: P_def)
qed

text \<open>The instance: the response of \<open>t_ifn_r\<close> to the initiation of \<open>t_ifn_i\<close>.\<close>

theorem resp_same_c_h_witness:
  "createhsresp t_prims t_mem t_env_r t_ifn_r1 1 t_mwr0 t_init = (Return 0, t_ifn_r2, t_resp) \<and>
   upgradehsresp t_prims t_mem t_ifn_i1 0 t_resp 0 = (Return 0, t_ifn_i2, t_resp) \<and>
   hs_c (p_hs (getpeer t_ifn_r1 1)) = hs_c (p_hs (getpeer t_ifn_i1 0)) \<and>
   hs_h (p_hs (getpeer t_ifn_r1 1)) = hs_h (p_hs (getpeer t_ifn_i1 0)) \<and>
   p_psk (getpeer t_ifn_r1 1) = p_psk (getpeer t_ifn_i1 0) \<and>
   X25519 t_prims (snd (e_keypair t_env_r)) (hs_epubi (p_hs (getpeer t_ifn_r1 1))) =
     X25519 t_prims (hs_epriv (p_hs (getpeer t_ifn_i1 0))) (fst (e_keypair t_env_r)) \<and>
   X25519 t_prims (snd (e_keypair t_env_r)) (p_pubkey (getpeer t_ifn_r1 1)) =
     X25519 t_prims (ifn_privkey t_ifn_i1) (fst (e_keypair t_env_r)) \<and>
   hs_c (p_hs (getpeer t_ifn_r2 1)) = hs_c (p_hs (getpeer t_ifn_i2 0)) \<and>
   hs_h (p_hs (getpeer t_ifn_r2 1)) = hs_h (p_hs (getpeer t_ifn_i2 0)) \<and>
   hs_c (p_hs (getpeer t_ifn_r2 1)) \<noteq> hs_c (p_hs (getpeer t_ifn_r1 1))"
proof -
  have p: "1 < length (ifn_peers t_ifn_r1)" and j: "0 < length (ifn_peers t_ifn_i1)"
    by (simp_all add: t_recs)
  have c: "hs_c (p_hs (getpeer t_ifn_r1 1)) = hs_c (p_hs (getpeer t_ifn_i1 0))"
    and h: "hs_h (p_hs (getpeer t_ifn_r1 1)) = hs_h (p_hs (getpeer t_ifn_i1 0))"
    and psk: "p_psk (getpeer t_ifn_r1 1) = p_psk (getpeer t_ifn_i1 0)"
    by (simp_all add: getpeer_def t_recs)
  have dh1: "X25519 t_prims (snd (e_keypair t_env_r)) (hs_epubi (p_hs (getpeer t_ifn_r1 1))) =
     X25519 t_prims (hs_epriv (p_hs (getpeer t_ifn_i1 0))) (fst (e_keypair t_env_r))"
    and dh2: "X25519 t_prims (snd (e_keypair t_env_r)) (p_pubkey (getpeer t_ifn_r1 1)) =
     X25519 t_prims (ifn_privkey t_ifn_i1) (fst (e_keypair t_env_r))"
    by code_simp+
  have ne: "q_c3 \<noteq> i_c2" by code_simp
  then have ne': "hs_c (p_hs (getpeer t_ifn_r2 1)) \<noteq> hs_c (p_hs (getpeer t_ifn_r1 1))"
    by (simp add: getpeer_def t_recs)
  from resp_same_c_h [OF t_createhsresp t_upgradehsresp p j c h psk dh1 dh2]
    t_createhsresp t_upgradehsresp c h psk dh1 dh2 ne'
  show ?thesis by simp
qed

section \<open>A wrong mac1\<close>

text \<open>
  C6. When the \<open>mac1\<close> field of the initiation (of the response) in \<open>msg\<close> is not the
  MAC of the message prefix under the \<open>mac1key\<close> of the interface, \<open>handlewginit\<close>
  (\<open>handlewgresp\<close>) returns -1, the interface with all its peers is unchanged and
  nothing is sent. Nothing is assumed on the other primitives, the memory and the
  environment: the result is there before any of them is used.
\<close>

theorem invalid_mac1_rejected:
  "(ws_mac pr (msga_init (msg_mwi msg)) (ifn_mac1key ifn) \<noteq> Some (mwi_mac1 (msg_mwi msg)) \<longrightarrow>
      handlewginit pr m e ifn peer addrs msg = (Return (- 1), ifn, [])) \<and>
   (ws_mac pr (msga_resp (msg_mwr msg)) (ifn_mac1key ifn) \<noteq> Some (mwr_mac1 (msg_mwr msg)) \<longrightarrow>
      handlewgresp pr m e ifn peer addrs msg = (Return (- 1), ifn, []))"
  by (simp add: handlewginit_def handlewgresp_def ws_validmac_def)

text \<open>The instance: the initiation and the response of the handshake, each with one
  bit of \<open>mac1\<close> flipped. Unchanged, both are accepted (\<open>t_handlewginit\<close>,
  \<open>t_handlewgresp\<close>).\<close>

theorem invalid_mac1_rejected_witness:
  "ws_mac t_prims (msga_init (t_init\<lparr>mwi_mac1 := flipbit i_mac\<rparr>)) (ifn_mac1key t_ifn_r) = Some i_mac \<and>
   Some i_mac \<noteq> Some (flipbit i_mac) \<and>
   handlewginit t_prims t_mem t_env_r t_ifn_r None None
     \<lparr>msg_mwi = t_init\<lparr>mwi_mac1 := flipbit i_mac\<rparr>, msg_mwr = t_mwr0\<rparr> = (Return (- 1), t_ifn_r, []) \<and>
   ws_mac t_prims (msga_resp (t_resp\<lparr>mwr_mac1 := flipbit q_mac\<rparr>)) (ifn_mac1key t_ifn_i1) = Some q_mac \<and>
   Some q_mac \<noteq> Some (flipbit q_mac) \<and>
   handlewgresp t_prims t_mem t_env_i t_ifn_i1 (Some 0) None
     \<lparr>msg_mwi = t_mwi0, msg_mwr = t_resp\<lparr>mwr_mac1 := flipbit q_mac\<rparr>\<rparr> = (Return (- 1), t_ifn_i1, [])"
proof -
  have f: "i_mac \<noteq> flipbit i_mac" "q_mac \<noteq> flipbit q_mac" by code_simp+
  have a: "ws_mac t_prims (msga_init (t_init\<lparr>mwi_mac1 := flipbit i_mac\<rparr>)) (ifn_mac1key t_ifn_r) = Some i_mac"
    by (simp add: msga_init_def t_recs t_leaves)
  have b: "ws_mac t_prims (msga_resp (t_resp\<lparr>mwr_mac1 := flipbit q_mac\<rparr>)) (ifn_mac1key t_ifn_i1) = Some q_mac"
    by (simp add: msga_resp_def t_recs t_leaves)
  from invalid_mac1_rejected [of t_prims "\<lparr>msg_mwi = t_init\<lparr>mwi_mac1 := flipbit i_mac\<rparr>, msg_mwr = t_mwr0\<rparr>"
      t_ifn_r t_mem t_env_r None None] a f
  have 1: "handlewginit t_prims t_mem t_env_r t_ifn_r None None
     \<lparr>msg_mwi = t_init\<lparr>mwi_mac1 := flipbit i_mac\<rparr>, msg_mwr = t_mwr0\<rparr> = (Return (- 1), t_ifn_r, [])"
    by simp
  from invalid_mac1_rejected [of t_prims "\<lparr>msg_mwi = t_mwi0, msg_mwr = t_resp\<lparr>mwr_mac1 := flipbit q_mac\<rparr>\<rparr>"
      t_ifn_i1 t_mem t_env_i "Some 0" None] b f
  have 2: "handlewgresp t_prims t_mem t_env_i t_ifn_i1 (Some 0) None
     \<lparr>msg_mwi = t_mwi0, msg_mwr = t_resp\<lparr>mwr_mac1 := flipbit q_mac\<rparr>\<rparr> = (Return (- 1), t_ifn_i1, [])"
    by simp
  from a b f 1 2 show ?thesis by simp
qed

section \<open>A message for another peer than the asserted one\<close>

lemma ids_dense_nth:
  assumes "ids_dense ifn" "i < length (ifn_peers ifn)"
  shows "unat (p_id (getpeer ifn i)) = i"
proof -
  from assms(1) have "map (\<lambda>p. unat (p_id p)) (ifn_peers ifn) ! i = [0..<length (ifn_peers ifn)] ! i"
    by (simp add: ids_dense_def)
  with assms(2) show ?thesis by (simp add: getpeer_def)
qed

lemma findifnpeerbysessid_Some:
  "findifnpeerbysessid ifn s = Some p \<Longrightarrow> p < length (ifn_peers ifn)"
  by (auto simp: findifnpeerbysessid_def dest!: findfrom_Some)

text \<open>
  C7. The interface asserts the peer \<open>P1\<close>. An initiation whose \<open>stat\<close> opens to a
  key that the lookup resolves to another peer \<open>P2\<close> makes \<open>handlewginit\<close> return -1;
  a response whose receiver session id the lookup resolves to another peer \<open>P2\<close> makes
  \<open>handlewgresp\<close> return -1 (the code compares the ids of the two peers, which are
  their indices once the configuration is read). In both cases the interface is
  unchanged and nothing is sent, whether \<open>mac1\<close> is right or not.
\<close>

theorem cross_peer_rejected:
  "(hsinit_e pr m ifn (msg_mwi msg) (Some P1) 1 = Inr (tmph, tmpc, k) \<and>
    aead pr (m_tmpstat m) (KEYLEN + TAGLEN) (mwi_stat (msg_mwi msg)) k tmph 1 = Some tmpstat' \<and>
    findifnpeerbypubkey ifn tmpstat' = Some P2 \<and> P2 \<noteq> P1 \<longrightarrow>
      handlewginit pr m e ifn (Some P1) addrs msg = (Return (- 1), ifn, [])) \<and>
   (ids_dense ifn \<and> P1 < length (ifn_peers ifn) \<and>
    findifnpeerbysessid ifn (mwr_receiver (msg_mwr msg)) = Some P2 \<and> P2 \<noteq> P1 \<longrightarrow>
      handlewgresp pr m e ifn (Some P1) addrs msg = (Return (- 1), ifn, []))"
proof (intro conjI impI)
  assume a: "hsinit_e pr m ifn (msg_mwi msg) (Some P1) 1 = Inr (tmph, tmpc, k) \<and>
    aead pr (m_tmpstat m) (KEYLEN + TAGLEN) (mwi_stat (msg_mwi msg)) k tmph 1 = Some tmpstat' \<and>
    findifnpeerbypubkey ifn tmpstat' = Some P2 \<and> P2 \<noteq> P1"
  then have "hsinit_auth pr m ifn (msg_mwi msg) (Some P1) 1 = Inl (Return (- 1), Some P1)"
    by (simp add: hsinit_auth_def hsinit_s_def)
  then have "upgradehsinit pr m ifn (msg_mwi msg) (Some P1) 1 =
      (Return (- 1), ifn, msg_mwi msg, Some P1)"
    by (simp add: upgradehsinit_def)
  then show "handlewginit pr m e ifn (Some P1) addrs msg = (Return (- 1), ifn, [])"
    by (simp add: handlewginit_def Let_def)
next
  assume b: "ids_dense ifn \<and> P1 < length (ifn_peers ifn) \<and>
    findifnpeerbysessid ifn (mwr_receiver (msg_mwr msg)) = Some P2 \<and> P2 \<noteq> P1"
  then have "P2 < length (ifn_peers ifn)" by (auto dest: findifnpeerbysessid_Some)
  with b have "unat (p_id (getpeer ifn P1)) = P1" "unat (p_id (getpeer ifn P2)) = P2"
    by (simp_all add: ids_dense_nth)
  with b have "p_id (getpeer ifn P1) \<noteq> p_id (getpeer ifn P2)" by auto
  with b show "handlewgresp pr m e ifn (Some P1) addrs msg = (Return (- 1), ifn, [])"
    by (simp add: handlewgresp_def Let_def)
qed

text \<open>The instance: the initiation of the handshake, which is from peer 1 of the
  responder, delivered with peer 0 asserted; and a response with a right \<open>mac1\<close> whose
  receiver is the session id of peer 1 of \<open>t_ifn_r2\<close>, delivered with peer 0 asserted.\<close>

theorem cross_peer_rejected_witness:
  "ws_validmac t_prims (mwi_mac1 t_init) (msga_init t_init) (ifn_mac1key t_ifn_r) \<and>
   hsinit_e t_prims t_mem t_ifn_r t_init (Some 0) 1 = Inr (i_h0, i_c1, i_k1) \<and>
   aead t_prims (m_tmpstat t_mem) (KEYLEN + TAGLEN) (mwi_stat t_init) i_k1 i_h0 1 = Some r_tmpstat \<and>
   findifnpeerbypubkey t_ifn_r r_tmpstat = Some 1 \<and>
   handlewginit t_prims t_mem t_env_r t_ifn_r (Some 0) None \<lparr>msg_mwi = t_init, msg_mwr = t_mwr0\<rparr> =
     (Return (- 1), t_ifn_r, []) \<and>
   ws_validmac t_prims (mwr_mac1 t_resp_x) (msga_resp t_resp_x) (ifn_mac1key t_ifn_r2) \<and>
   ids_dense t_ifn_r2 \<and>
   findifnpeerbysessid t_ifn_r2 (mwr_receiver t_resp_x) = Some 1 \<and>
   handlewgresp t_prims t_mem t_env_r t_ifn_r2 (Some 0) None \<lparr>msg_mwi = t_mwi0, msg_mwr = t_resp_x\<rparr> =
     (Return (- 1), t_ifn_r2, [])"
proof -
  have v: "ws_validmac t_prims (mwi_mac1 t_init) (msga_init t_init) (ifn_mac1key t_ifn_r)"
    "ws_validmac t_prims (mwr_mac1 t_resp_x) (msga_resp t_resp_x) (ifn_mac1key t_ifn_r2)"
    by (simp_all add: ws_validmac_def msga_init_def msga_resp_def t_recs t_leaves)
  have e: "hsinit_e t_prims t_mem t_ifn_r t_init (Some 0) 1 = Inr (i_h0, i_c1, i_k1)"
    by (simp add: hs_defs t_recs t_leaves)
  have a: "aead t_prims (m_tmpstat t_mem) (KEYLEN + TAGLEN) (mwi_stat t_init) i_k1 i_h0 1 = Some r_tmpstat"
    by (simp add: t_recs t_leaves)
  have f: "findifnpeerbypubkey t_ifn_r r_tmpstat = Some 1"
    by (simp add: findifnpeerbypubkey_def t_recs t_leaves)
  have d: "ids_dense t_ifn_r2" "0 < length (ifn_peers t_ifn_r2)"
    by (simp_all add: ids_dense_def t_recs upt_rec)
  have s: "findifnpeerbysessid t_ifn_r2 (mwr_receiver t_resp_x) = Some 1"
    by (simp add: findifnpeerbysessid_def t_recs)
  note c = cross_peer_rejected [of t_prims t_mem t_ifn_r "\<lparr>msg_mwi = t_init, msg_mwr = t_mwr0\<rparr>"
      0 i_h0 i_c1 i_k1 r_tmpstat 1 t_env_r None]
  note c' = cross_peer_rejected [of t_prims t_mem t_ifn_r2 "\<lparr>msg_mwi = t_mwi0, msg_mwr = t_resp_x\<rparr>"
      0 i_h0 i_c1 i_k1 r_tmpstat 1 t_env_r None]
  from c e a f have 1: "handlewginit t_prims t_mem t_env_r t_ifn_r (Some 0) None
      \<lparr>msg_mwi = t_init, msg_mwr = t_mwr0\<rparr> = (Return (- 1), t_ifn_r, [])"
    by simp
  from c' d s have 2: "handlewgresp t_prims t_mem t_env_r t_ifn_r2 (Some 0) None
      \<lparr>msg_mwi = t_mwi0, msg_mwr = t_resp_x\<rparr> = (Return (- 1), t_ifn_r2, [])"
    by simp
  from v e a f d s 1 2 show ?thesis by simp
qed

section \<open>The interface id of a proxy message\<close>

lemma handleproxymsg_guard:
  "handleproxymsg pr m e ifnv (Some (ifnid, lsn, fsn, mt, msg)) =
    (if length ifnv < unat ifnid then (Return (- 1), ifnv, [])
     else if unat ifnid = length ifnv then (Fault, ifnv, [])
     else handleproxymsg pr m e ifnv (Some (ifnid, lsn, fsn, mt, msg)))"
  by (simp add: handleproxymsg_def)

text \<open>
  C8 asks that every interface id that is not an index of the interface table
  (\<open>ifnid \<ge> ifnvsize\<close>) is rejected with -1, no entry of the table being read. The code
  does so for \<open>ifnid > ifnvsize\<close> only. With one interface configured, the id 2 is
  rejected, but for the id 1, which is \<open>ifnvsize\<close>, the guard is passed and \<open>ifnv[1]\<close>,
  the entry behind the table, is read.
\<close>

theorem proxy_ifnid_guard_off_by_one:
  "handleproxymsg t_prims t_mem t_env_r [t_ifn_r]
     (Some (2, t_zero16, t_zero16, MSGWGINIT, \<lparr>msg_mwi = t_init, msg_mwr = t_mwr0\<rparr>)) =
     (Return (- 1), [t_ifn_r], []) \<and>
   handleproxymsg t_prims t_mem t_env_r [t_ifn_r]
     (Some (1, t_zero16, t_zero16, MSGWGINIT, \<lparr>msg_mwi = t_init, msg_mwr = t_mwr0\<rparr>)) =
     (Fault, [t_ifn_r], []) \<and>
   handleproxymsg t_prims t_mem t_env_r [t_ifn_r]
     (Some (1, t_zero16, t_zero16, MSGWGINIT, \<lparr>msg_mwi = t_init, msg_mwr = t_mwr0\<rparr>)) \<noteq>
     (Return (- 1), [t_ifn_r], [])"
  by (simp add: handleproxymsg_def)

section \<open>A failing send\<close>

lemma hsinit_auth_noFault:
  "responder \<noteq> 0 \<or> peer \<noteq> None \<Longrightarrow>
   hsinit_auth pr m ifn mwi peer responder \<noteq> Inl (Fault, q)"
  by (auto simp: hsinit_auth_def hsinit_e_def hsinit_s_def hsinit_ss_def kdf1_eq kdfn_2 Let_def
      split: sum.splits option.splits if_splits prod.splits)

lemma upgradehsinit_ret:
  assumes "responder \<noteq> 0 \<or> peer \<noteq> None"
  shows "\<exists>ifn' mwi' peer'.
     upgradehsinit pr m ifn mwi peer responder = (Return (- 1), ifn', mwi', peer') \<or>
     (\<exists>p. upgradehsinit pr m ifn mwi peer responder = (Return 0, ifn', mwi', Some p))"
proof (cases "hsinit_auth pr m ifn mwi peer responder")
  case (Inl a)
  obtain r q where a: "a = (r, q)" by (cases a)
  with Inl hsinit_auth_Inl [of pr m ifn mwi peer responder r q]
    hsinit_auth_noFault [OF assms, of pr m ifn mwi q]
  have "r = Return (- 1)" by auto
  with Inl a show ?thesis by (simp add: upgradehsinit_def)
next
  case (Inr b)
  then show ?thesis
    by (cases b) (simp add: upgradehsinit_def Let_def split: option.split)
qed

lemma createhsresp_ret:
  "\<exists>ifn' mwr'. createhsresp pr m e ifn j mwr mwi = (Return (- 1), ifn', mwr') \<or>
     createhsresp pr m e ifn j mwr mwi = (Return 0, ifn', mwr')"
proof -
  define ifn1 where "ifn1 = setpeer ifn j (getpeer ifn j\<lparr>p_hs := p_hs (getpeer ifn j)
    \<lparr>hs_sessid := e_arc4random e, hs_peersessid := mwi_sender mwi, hs_epriv := snd (e_keypair e)\<rparr>\<rparr>)"
  define mwr1 where "mwr1 = mwr\<lparr>mwr_type := 2, mwr_sender := e_arc4random e,
    mwr_receiver := mwi_sender mwi, mwr_ephemeral := fst (e_keypair e)\<rparr>"
  obtain r ifn2 mwr2 where u: "upgradehsresp pr m ifn1 j mwr1 1 = (r, ifn2, mwr2)"
    by (cases "upgradehsresp pr m ifn1 j mwr1 1") auto
  with upgradehsresp_cases [of pr m ifn1 j mwr1 1] have "r = Return 0 \<or> r = Return (- 1)" by auto
  with u show ?thesis
    by (auto simp: createhsresp_def Let_def ifn1_def mwr1_def split: option.split)
qed

lemma createhsinit_ret:
  "\<exists>ifn' mwi'. createhsinit pr m e ifn j mwi = (Return (- 1), ifn', mwi') \<or>
     createhsinit pr m e ifn j mwi = (Return 0, ifn', mwi')"
proof (cases "e_tai64n e")
  case None
  then show ?thesis by (simp add: createhsinit_def Let_def)
next
  case (Some ts)
  define ifn1 where "ifn1 = setpeer ifn j (getpeer ifn j\<lparr>p_hs := p_hs (getpeer ifn j)
    \<lparr>hs_sessid := e_arc4random e, hs_epriv := snd (e_keypair e)\<rparr>\<rparr>)"
  define mwi1 where "mwi1 = mwi\<lparr>mwi_type := 1, mwi_sender := e_arc4random e,
    mwi_ephemeral := fst (e_keypair e),
    mwi_timestamp := memcpy (mwi_timestamp mwi) ts (12 + TAGLEN - TAGLEN)\<rparr>"
  from upgradehsinit_ret [of 0 "Some j" pr m ifn1 mwi1] obtain ifn' mwi' peer' where
    "upgradehsinit pr m ifn1 mwi1 (Some j) 0 = (Return (- 1), ifn', mwi', peer') \<or>
     (\<exists>p. upgradehsinit pr m ifn1 mwi1 (Some j) 0 = (Return 0, ifn', mwi', Some p))"
    by auto
  with Some show ?thesis
    by (auto simp: createhsinit_def Let_def ifn1_def mwi1_def split: option.split)
qed

lemma makemsgsesskeys_Some: "\<exists>msk. makemsgsesskeys pr h responder = Some msk"
  by (simp add: makemsgsesskeys_def kdfn_2 Let_def)

lemma sendconnreq_ret:
  assumes "case addrs of None \<Rightarrow> True | Some (fsn, lsn) \<Rightarrow> makemsgconnreq pr fsn lsn \<noteq> None"
  shows "(sendconnreq pr e ifn P addrs = Inl (Return (- 1)) \<or>
          (\<exists>sent. sendconnreq pr e ifn P addrs = Inr sent)) \<and>
         (addrs \<noteq> None \<and> e_send e MSGCONNREQ = - 1 \<longrightarrow>
          sendconnreq pr e ifn P addrs = Inl (Return (- 1)))"
  using assms by (auto simp: sendconnreq_def split: option.splits)

lemma handlewginit_ret:
  assumes mk: "case addrs of None \<Rightarrow> True | Some (fsn, lsn) \<Rightarrow> makemsgconnreq pr fsn lsn \<noteq> None"
  shows "(fst (handlewginit pr m e ifn peer addrs msg) = Return 0 \<or>
          fst (handlewginit pr m e ifn peer addrs msg) = Return (- 1)) \<and>
         (e_send e MSGSESSKEYS = - 1 \<or> e_send e MSGWGRESP = - 1 \<or>
          addrs \<noteq> None \<and> e_send e MSGCONNREQ = - 1 \<longrightarrow>
          fst (handlewginit pr m e ifn peer addrs msg) = Return (- 1))"
proof (cases "ws_validmac pr (mwi_mac1 (msg_mwi msg)) (msga_init (msg_mwi msg)) (ifn_mac1key ifn)")
  case False
  then show ?thesis by (simp add: handlewginit_def)
next
  case mac: True
  from upgradehsinit_ret [of 1 peer pr m ifn "msg_mwi msg"] obtain ifn1 mwi1 peer1 where
    u: "upgradehsinit pr m ifn (msg_mwi msg) peer 1 = (Return (- 1), ifn1, mwi1, peer1) \<or>
     (\<exists>p. upgradehsinit pr m ifn (msg_mwi msg) peer 1 = (Return 0, ifn1, mwi1, Some p))"
    by auto
  then show ?thesis
  proof
    assume "upgradehsinit pr m ifn (msg_mwi msg) peer 1 = (Return (- 1), ifn1, mwi1, peer1)"
    with mac show ?thesis by (simp add: handlewginit_def Let_def)
  next
    assume "\<exists>p. upgradehsinit pr m ifn (msg_mwi msg) peer 1 = (Return 0, ifn1, mwi1, Some p)"
    then obtain p where
      u0: "upgradehsinit pr m ifn (msg_mwi msg) peer 1 = (Return 0, ifn1, mwi1, Some p)" ..
    from createhsresp_ret [of pr m e ifn1 p "msg_mwr msg" mwi1] obtain ifn2 mwr where
      c: "createhsresp pr m e ifn1 p (msg_mwr msg) mwi1 = (Return (- 1), ifn2, mwr) \<or>
          createhsresp pr m e ifn1 p (msg_mwr msg) mwi1 = (Return 0, ifn2, mwr)"
      by auto
    then show ?thesis
    proof
      assume "createhsresp pr m e ifn1 p (msg_mwr msg) mwi1 = (Return (- 1), ifn2, mwr)"
      with mac u0 show ?thesis by (simp add: handlewginit_def Let_def)
    next
      assume c0: "createhsresp pr m e ifn1 p (msg_mwr msg) mwi1 = (Return 0, ifn2, mwr)"
      obtain msk where k: "makemsgsesskeys pr (p_hs (getpeer ifn2 p)) 1 = Some msk"
        using makemsgsesskeys_Some by blast
      from sendconnreq_ret [OF mk, of e ifn2 "getpeer ifn2 p"]
      have sc: "sendconnreq pr e ifn2 (getpeer ifn2 p) addrs = Inl (Return (- 1)) \<or>
          (\<exists>sent. sendconnreq pr e ifn2 (getpeer ifn2 p) addrs = Inr sent)"
        and sf: "addrs \<noteq> None \<and> e_send e MSGCONNREQ = - 1 \<longrightarrow>
          sendconnreq pr e ifn2 (getpeer ifn2 p) addrs = Inl (Return (- 1))"
        by blast+
      from sc show ?thesis
      proof
        assume "sendconnreq pr e ifn2 (getpeer ifn2 p) addrs = Inl (Return (- 1))"
        with mac u0 c0 show ?thesis by (simp add: handlewginit_def Let_def)
      next
        assume "\<exists>sent. sendconnreq pr e ifn2 (getpeer ifn2 p) addrs = Inr sent"
        then obtain sent where "sendconnreq pr e ifn2 (getpeer ifn2 p) addrs = Inr sent" ..
        with sf mac u0 c0 k show ?thesis by (simp add: handlewginit_def Let_def)
      qed
    qed
  qed
qed

lemma handlewgresp_ret:
  assumes mk: "case addrs of None \<Rightarrow> True | Some (fsn, lsn) \<Rightarrow> makemsgconnreq pr fsn lsn \<noteq> None"
  shows "(fst (handlewgresp pr m e ifn peer addrs msg) = Return 0 \<or>
          fst (handlewgresp pr m e ifn peer addrs msg) = Return (- 1)) \<and>
         (e_send e MSGSESSKEYS = - 1 \<or> addrs \<noteq> None \<and> e_send e MSGCONNREQ = - 1 \<longrightarrow>
          fst (handlewgresp pr m e ifn peer addrs msg) = Return (- 1))"
proof (cases "ws_validmac pr (mwr_mac1 (msg_mwr msg)) (msga_resp (msg_mwr msg)) (ifn_mac1key ifn)")
  case False
  then show ?thesis by (simp add: handlewgresp_def)
next
  case mac: True
  show ?thesis
  proof (cases "findifnpeerbysessid ifn (mwr_receiver (msg_mwr msg))")
    case None
    with mac show ?thesis by (simp add: handlewgresp_def Let_def)
  next
    case (Some p)
    show ?thesis
    proof (cases "case peer of None \<Rightarrow> False
        | Some q \<Rightarrow> p_id (getpeer ifn q) \<noteq> p_id (getpeer ifn p)")
      case True
      with mac Some show ?thesis by (simp add: handlewgresp_def Let_def)
    next
      case False
      obtain r ifn1 mwr1 where u: "upgradehsresp pr m ifn p (msg_mwr msg) 0 = (r, ifn1, mwr1)"
        by (cases "upgradehsresp pr m ifn p (msg_mwr msg) 0") auto
      with upgradehsresp_cases [of pr m ifn p "msg_mwr msg" 0]
      have r: "r = Return 0 \<or> r = Return (- 1)" by auto
      define P' where "P' = getpeer ifn1 p\<lparr>p_hs := p_hs (getpeer ifn1 p)\<lparr>hs_peersessid := mwr_sender mwr1\<rparr>\<rparr>"
      obtain msk where k: "makemsgsesskeys pr (p_hs P') 0 = Some msk"
        using makemsgsesskeys_Some by blast
      from sendconnreq_ret [OF mk, of e "setpeer ifn1 p P'" P']
      have sc: "sendconnreq pr e (setpeer ifn1 p P') P' addrs = Inl (Return (- 1)) \<or>
          (\<exists>sent. sendconnreq pr e (setpeer ifn1 p P') P' addrs = Inr sent)"
        and sf: "addrs \<noteq> None \<and> e_send e MSGCONNREQ = - 1 \<longrightarrow>
          sendconnreq pr e (setpeer ifn1 p P') P' addrs = Inl (Return (- 1))"
        by blast+
      from r show ?thesis
      proof
        assume "r = Return (- 1)"
        with mac Some False u show ?thesis by (simp add: handlewgresp_def Let_def)
      next
        assume r0: "r = Return 0"
        from sc show ?thesis
        proof
          assume "sendconnreq pr e (setpeer ifn1 p P') P' addrs = Inl (Return (- 1))"
          with mac Some False u r0 show ?thesis
            by (simp add: handlewgresp_def Let_def P'_def)
        next
          assume "\<exists>sent. sendconnreq pr e (setpeer ifn1 p P') P' addrs = Inr sent"
          then obtain sent where "sendconnreq pr e (setpeer ifn1 p P') P' addrs = Inr sent" ..
          with sf mac Some False u r0 k show ?thesis
            by (simp add: handlewgresp_def Let_def P'_def)
        qed
      qed
    qed
  qed
qed

lemma handleifnmsg_ret:
  "(fst (handleifnmsg pr m e ifn rx) = Return 0 \<or> fst (handleifnmsg pr m e ifn rx) = Return (- 1)) \<and>
   (e_send e MSGWGINIT = - 1 \<longrightarrow>
    fst (handleifnmsg pr m e ifn (Some (peerid, MSGREQWGINIT, msg))) = Return (- 1))"
proof -
  have mk: "case None of None \<Rightarrow> True | Some (fsn, lsn) \<Rightarrow> makemsgconnreq pr fsn lsn \<noteq> None"
    by simp
  have q: "(fst (handleifnmsg pr m e ifn (Some (pid, mt, mg))) = Return 0 \<or>
      fst (handleifnmsg pr m e ifn (Some (pid, mt, mg))) = Return (- 1)) \<and>
      (mt = MSGREQWGINIT \<and> e_send e MSGWGINIT = - 1 \<longrightarrow>
       fst (handleifnmsg pr m e ifn (Some (pid, mt, mg))) = Return (- 1))" for pid mt mg
  proof (cases "findifnpeerbyid ifn pid")
    case None
    then show ?thesis by (simp add: handleifnmsg_def)
  next
    case (Some j)
    obtain r ifn1 mwi' where c: "createhsinit pr m e ifn j (msg_mwi mg) = (r, ifn1, mwi')"
      by (cases "createhsinit pr m e ifn j (msg_mwi mg)") auto
    with createhsinit_ret [where pr = pr and m = m and e = e and ifn = ifn and j = j
        and mwi = "msg_mwi mg"]
    have r: "r = Return 0 \<or> r = Return (- 1)" by auto
    from handlewginit_ret [OF mk, where m = m and e = e and ifn = ifn and peer = "Some j" and msg = mg]
    have hi: "fst (handlewginit pr m e ifn (Some j) None mg) = Return 0 \<or>
        fst (handlewginit pr m e ifn (Some j) None mg) = Return (- 1)"
      by blast
    from handlewgresp_ret [OF mk, where m = m and e = e and ifn = ifn and peer = "Some j" and msg = mg]
    have hr: "fst (handlewgresp pr m e ifn (Some j) None mg) = Return 0 \<or>
        fst (handlewgresp pr m e ifn (Some j) None mg) = Return (- 1)"
      by blast
    from Some c hi hr r show ?thesis
      by (cases mt) (auto simp: handleifnmsg_def)
  qed
  have a: "fst (handleifnmsg pr m e ifn rx) = Return 0 \<or>
      fst (handleifnmsg pr m e ifn rx) = Return (- 1)"
  proof (cases rx)
    case None
    then show ?thesis by (simp add: handleifnmsg_def)
  next
    case (Some t)
    obtain pid mt mg where "t = (pid, mt, mg)" by (cases t)
    with Some q [of pid mt mg] show ?thesis by simp
  qed
  from a q [of peerid MSGREQWGINIT msg] show ?thesis by blast
qed

lemma handleproxymsg_ret:
  assumes id: "unat ifnid \<noteq> length ifnv"
    and mk: "makemsgconnreq pr fsn lsn \<noteq> None"
  shows "(fst (handleproxymsg pr m e ifnv (Some (ifnid, lsn, fsn, mt, msg))) = Return 0 \<or>
          fst (handleproxymsg pr m e ifnv (Some (ifnid, lsn, fsn, mt, msg))) = Return (- 1)) \<and>
         (e_send e MSGCONNREQ = - 1 \<or> e_send e MSGSESSKEYS = - 1 \<or>
          mt = MSGWGINIT \<and> e_send e MSGWGRESP = - 1 \<longrightarrow>
          fst (handleproxymsg pr m e ifnv (Some (ifnid, lsn, fsn, mt, msg))) = Return (- 1))"
proof (cases "length ifnv < unat ifnid")
  case True
  then show ?thesis by (simp add: handleproxymsg_def)
next
  case False
  with id have v: "unat ifnid < length ifnv" by simp
  have mk': "case Some (fsn, lsn) of None \<Rightarrow> True
      | Some (fsn, lsn) \<Rightarrow> makemsgconnreq pr fsn lsn \<noteq> None"
    using mk by simp
  obtain r1 i1 s1 where
    h1: "handlewginit pr m e (ifnv ! unat ifnid) None (Some (fsn, lsn)) msg = (r1, i1, s1)"
    by (cases "handlewginit pr m e (ifnv ! unat ifnid) None (Some (fsn, lsn)) msg") auto
  obtain r2 i2 s2 where
    h2: "handlewgresp pr m e (ifnv ! unat ifnid) None (Some (fsn, lsn)) msg = (r2, i2, s2)"
    by (cases "handlewgresp pr m e (ifnv ! unat ifnid) None (Some (fsn, lsn)) msg") auto
  from handlewginit_ret [OF mk', where m = m and e = e and ifn = "ifnv ! unat ifnid"
      and peer = None and msg = msg] h1
  have a1: "r1 = Return 0 \<or> r1 = Return (- 1)"
    and b1: "e_send e MSGCONNREQ = - 1 \<or> e_send e MSGSESSKEYS = - 1 \<or>
      e_send e MSGWGRESP = - 1 \<longrightarrow> r1 = Return (- 1)"
    by auto
  from handlewgresp_ret [OF mk', where m = m and e = e and ifn = "ifnv ! unat ifnid"
      and peer = None and msg = msg] h2
  have a2: "r2 = Return 0 \<or> r2 = Return (- 1)"
    and b2: "e_send e MSGCONNREQ = - 1 \<or> e_send e MSGSESSKEYS = - 1 \<longrightarrow> r2 = Return (- 1)"
    by auto
  from v h1 h2 a1 b1 a2 b2 show ?thesis
    by (cases mt) (auto simp: handleproxymsg_def)
qed

text \<open>
  C9, as the code has it. A send that fails does not end the process. As long as
  \<open>makemsgconnreq\<close> succeeds, \<open>handlewginit\<close> and \<open>handlewgresp\<close> return 0 or -1, and
  \<open>handleifnmsg\<close> does so always; when the send of a reply of the call fails
  (\<open>MSGCONNREQ\<close>, \<open>MSGSESSKEYS\<close>, \<open>MSGWGRESP\<close> or \<open>MSGWGINIT\<close>), the handler returns -1.
  A message of the proxy whose interface id is not \<open>ifnvsize\<close> (the id that passes the
  guard and is no index of the table), and for which \<open>makemsgconnreq\<close> succeeds, makes
  \<open>handleproxymsg\<close> return 0 or -1, and -1 when the send of \<open>MSGCONNREQ\<close>, of
  \<open>MSGSESSKEYS\<close> or, for an initiation, of \<open>MSGWGRESP\<close> fails.
  The loop of \<open>enclave_serv\<close> does not look at that value: after an event of an
  interface or of the proxy that is not an end of file it goes on, also when
  nothing could be received from the proxy.
\<close>

theorem send_failure_returns:
  assumes mk: "case addrs of None \<Rightarrow> True | Some (fsn, lsn) \<Rightarrow> makemsgconnreq pr fsn lsn \<noteq> None"
  shows "(fst (handlewginit pr m e ifn peer addrs msg) = Return 0 \<or>
          fst (handlewginit pr m e ifn peer addrs msg) = Return (- 1)) \<and>
         (fst (handlewgresp pr m e ifn peer addrs msg) = Return 0 \<or>
          fst (handlewgresp pr m e ifn peer addrs msg) = Return (- 1)) \<and>
         (fst (handleifnmsg pr m e ifn rx) = Return 0 \<or>
          fst (handleifnmsg pr m e ifn rx) = Return (- 1)) \<and>
         (e_send e MSGSESSKEYS = - 1 \<or> addrs \<noteq> None \<and> e_send e MSGCONNREQ = - 1 \<longrightarrow>
          fst (handlewginit pr m e ifn peer addrs msg) = Return (- 1) \<and>
          fst (handlewgresp pr m e ifn peer addrs msg) = Return (- 1)) \<and>
         (e_send e MSGWGRESP = - 1 \<longrightarrow>
          fst (handlewginit pr m e ifn peer addrs msg) = Return (- 1)) \<and>
         (e_send e MSGWGINIT = - 1 \<longrightarrow>
          fst (handleifnmsg pr m e ifn (Some (peerid, MSGREQWGINIT, msg))) = Return (- 1)) \<and>
         (ident \<noteq> pport \<and> \<not> eof \<longrightarrow>
          fst (serv_event pr m e pport ifnv ident eof prx irx) = None) \<and>
         (unat ifnid \<noteq> length ifnv \<and> makemsgconnreq pr fsn lsn \<noteq> None \<longrightarrow>
          (fst (handleproxymsg pr m e ifnv (Some (ifnid, lsn, fsn, mt, pmsg))) = Return 0 \<or>
           fst (handleproxymsg pr m e ifnv (Some (ifnid, lsn, fsn, mt, pmsg))) = Return (- 1)) \<and>
          (e_send e MSGCONNREQ = - 1 \<or> e_send e MSGSESSKEYS = - 1 \<or>
           mt = MSGWGINIT \<and> e_send e MSGWGRESP = - 1 \<longrightarrow>
           fst (handleproxymsg pr m e ifnv (Some (ifnid, lsn, fsn, mt, pmsg))) = Return (- 1)) \<and>
          (\<not> eof \<longrightarrow>
           fst (serv_event pr m e pport ifnv pport eof (Some (ifnid, lsn, fsn, mt, pmsg)) irx) =
             None)) \<and>
         (\<not> eof \<longrightarrow> fst (serv_event pr m e pport ifnv pport eof None irx) = None)"
proof -
  have x: "unat ifnid \<noteq> length ifnv \<and> makemsgconnreq pr fsn lsn \<noteq> None \<longrightarrow>
          (fst (handleproxymsg pr m e ifnv (Some (ifnid, lsn, fsn, mt, pmsg))) = Return 0 \<or>
           fst (handleproxymsg pr m e ifnv (Some (ifnid, lsn, fsn, mt, pmsg))) = Return (- 1)) \<and>
          (e_send e MSGCONNREQ = - 1 \<or> e_send e MSGSESSKEYS = - 1 \<or>
           mt = MSGWGINIT \<and> e_send e MSGWGRESP = - 1 \<longrightarrow>
           fst (handleproxymsg pr m e ifnv (Some (ifnid, lsn, fsn, mt, pmsg))) = Return (- 1)) \<and>
          (\<not> eof \<longrightarrow>
           fst (serv_event pr m e pport ifnv pport eof (Some (ifnid, lsn, fsn, mt, pmsg)) irx) =
             None)"
  proof
    assume "unat ifnid \<noteq> length ifnv \<and> makemsgconnreq pr fsn lsn \<noteq> None"
    then have id: "unat ifnid \<noteq> length ifnv" and k: "makemsgconnreq pr fsn lsn \<noteq> None"
      by simp_all
    note r = handleproxymsg_ret [OF id k, where m = m and e = e and mt = mt and msg = pmsg]
    from r have "goes_on (fst (handleproxymsg pr m e ifnv (Some (ifnid, lsn, fsn, mt, pmsg)))) = None"
      by (auto simp: goes_on_def)
    then have "\<not> eof \<longrightarrow>
        fst (serv_event pr m e pport ifnv pport eof (Some (ifnid, lsn, fsn, mt, pmsg)) irx) = None"
      by (auto simp: serv_event_def split: prod.split)
    with r show "(fst (handleproxymsg pr m e ifnv (Some (ifnid, lsn, fsn, mt, pmsg))) = Return 0 \<or>
           fst (handleproxymsg pr m e ifnv (Some (ifnid, lsn, fsn, mt, pmsg))) = Return (- 1)) \<and>
          (e_send e MSGCONNREQ = - 1 \<or> e_send e MSGSESSKEYS = - 1 \<or>
           mt = MSGWGINIT \<and> e_send e MSGWGRESP = - 1 \<longrightarrow>
           fst (handleproxymsg pr m e ifnv (Some (ifnid, lsn, fsn, mt, pmsg))) = Return (- 1)) \<and>
          (\<not> eof \<longrightarrow>
           fst (serv_event pr m e pport ifnv pport eof (Some (ifnid, lsn, fsn, mt, pmsg)) irx) =
             None)"
      by blast
  qed
  have y: "\<not> eof \<longrightarrow> fst (serv_event pr m e pport ifnv pport eof None irx) = None"
    by (simp add: serv_event_def handleproxymsg_def goes_on_def)
  have s: "ident \<noteq> pport \<and> \<not> eof \<longrightarrow> fst (serv_event pr m e pport ifnv ident eof prx irx) = None"
  proof (cases "findport ifnv ident 0")
    case None
    then show ?thesis by (simp add: serv_event_def)
  next
    case (Some n)
    from handleifnmsg_ret [where pr = pr and m = m and e = e and ifn = "ifnv ! n" and rx = irx]
    have "fst (handleifnmsg pr m e (ifnv ! n) irx) = Return 0 \<or>
        fst (handleifnmsg pr m e (ifnv ! n) irx) = Return (- 1)"
      by blast
    then have "goes_on (fst (handleifnmsg pr m e (ifnv ! n) irx)) = None"
      by (auto simp: goes_on_def)
    with Some show ?thesis by (auto simp: serv_event_def split: prod.split)
  qed
  from handlewginit_ret [OF mk, where e = e and m = m and ifn = ifn and peer = peer and msg = msg]
    handlewgresp_ret [OF mk, where e = e and m = m and ifn = ifn and peer = peer and msg = msg]
    handleifnmsg_ret [where pr = pr and m = m and e = e and ifn = ifn and rx = rx
      and peerid = peerid and msg = msg]
  have "(fst (handlewginit pr m e ifn peer addrs msg) = Return 0 \<or>
          fst (handlewginit pr m e ifn peer addrs msg) = Return (- 1)) \<and>
         (fst (handlewgresp pr m e ifn peer addrs msg) = Return 0 \<or>
          fst (handlewgresp pr m e ifn peer addrs msg) = Return (- 1)) \<and>
         (fst (handleifnmsg pr m e ifn rx) = Return 0 \<or>
          fst (handleifnmsg pr m e ifn rx) = Return (- 1)) \<and>
         (e_send e MSGSESSKEYS = - 1 \<or> addrs \<noteq> None \<and> e_send e MSGCONNREQ = - 1 \<longrightarrow>
          fst (handlewginit pr m e ifn peer addrs msg) = Return (- 1) \<and>
          fst (handlewgresp pr m e ifn peer addrs msg) = Return (- 1)) \<and>
         (e_send e MSGWGRESP = - 1 \<longrightarrow>
          fst (handlewginit pr m e ifn peer addrs msg) = Return (- 1)) \<and>
         (e_send e MSGWGINIT = - 1 \<longrightarrow>
          fst (handleifnmsg pr m e ifn (Some (peerid, MSGREQWGINIT, msg))) = Return (- 1))"
    by blast
  with s x y show ?thesis by (intro conjI) blast+
qed

text \<open>The instance: the initiation of the handshake at the responder. With working
  sends the session keys and the response are sent; when every send fails,
  \<open>handlewginit\<close> returns -1, and so do \<open>handleifnmsg\<close> and, for the same message from
  the proxy, \<open>handleproxymsg\<close>, after which the loop goes on.\<close>

theorem send_failure_returns_witness:
  "(case (None :: (bytes \<times> bytes) option) of None \<Rightarrow> True
     | Some (fsn, lsn) \<Rightarrow> makemsgconnreq t_prims fsn lsn \<noteq> None) \<and>
   e_send t_env_f MSGSESSKEYS = - 1 \<and>
   fst (handlewginit t_prims t_mem t_env_r t_ifn_r None None \<lparr>msg_mwi = t_init, msg_mwr = t_mwr0\<rparr>) =
     Return 0 \<and>
   fst (handlewginit t_prims t_mem t_env_f t_ifn_r None None \<lparr>msg_mwi = t_init, msg_mwr = t_mwr0\<rparr>) =
     Return (- 1) \<and>
   fst (handleifnmsg t_prims t_mem t_env_f t_ifn_r
     (Some (1, MSGWGINIT, \<lparr>msg_mwi = t_init, msg_mwr = t_mwr0\<rparr>))) = Return (- 1) \<and>
   fst (serv_event t_prims t_mem t_env_f 9 [t_ifn_r] 4 False None
     (Some (1, MSGWGINIT, \<lparr>msg_mwi = t_init, msg_mwr = t_mwr0\<rparr>))) = None \<and>
   unat (0 :: 32 word) \<noteq> length [t_ifn_r] \<and>
   makemsgconnreq t_prims t_zero16 t_zero16 \<noteq> None \<and>
   e_send t_env_f MSGCONNREQ = - 1 \<and>
   fst (handleproxymsg t_prims t_mem t_env_f [t_ifn_r]
     (Some (0, t_zero16, t_zero16, MSGWGINIT, \<lparr>msg_mwi = t_init, msg_mwr = t_mwr0\<rparr>))) =
     Return (- 1) \<and>
   fst (serv_event t_prims t_mem t_env_f 9 [t_ifn_r] 9 False
     (Some (0, t_zero16, t_zero16, MSGWGINIT, \<lparr>msg_mwi = t_init, msg_mwr = t_mwr0\<rparr>)) None) =
     None \<and>
   fst (serv_event t_prims t_mem t_env_f 9 [t_ifn_r] 9 False None None) = None"
proof -
  have mk: "case (None :: (bytes \<times> bytes) option) of None \<Rightarrow> True
     | Some (fsn, lsn) \<Rightarrow> makemsgconnreq t_prims fsn lsn \<noteq> None"
    by simp
  have f: "e_send t_env_f MSGSESSKEYS = - 1" "e_send t_env_f MSGCONNREQ = - 1"
    by (simp_all add: t_env_f_def)
  have k: "unat (0 :: 32 word) \<noteq> length [t_ifn_r]"
    "makemsgconnreq t_prims t_zero16 t_zero16 \<noteq> None"
    by (simp_all add: t_prims_def)
  note w = send_failure_returns [OF mk, where m = t_mem and e = t_env_f and ifn = t_ifn_r
      and msg = "\<lparr>msg_mwi = t_init, msg_mwr = t_mwr0\<rparr>"
      and rx = "Some (1, MSGWGINIT, \<lparr>msg_mwi = t_init, msg_mwr = t_mwr0\<rparr>)"
      and peerid = 1 and pport = 9 and eof = False and ifnv = "[t_ifn_r]"
      and ifnid = 0 and fsn = t_zero16 and lsn = t_zero16 and mt = MSGWGINIT
      and pmsg = "\<lparr>msg_mwi = t_init, msg_mwr = t_mwr0\<rparr>"]
  note wi = w [where ident = 4 and prx = None
      and irx = "Some (1, MSGWGINIT, \<lparr>msg_mwi = t_init, msg_mwr = t_mwr0\<rparr>)"]
  from wi [where peer = None] f have 1: "fst (handlewginit t_prims t_mem t_env_f t_ifn_r None None
      \<lparr>msg_mwi = t_init, msg_mwr = t_mwr0\<rparr>) = Return (- 1)"
    by simp
  have h: "handleifnmsg t_prims t_mem t_env_f t_ifn_r
      (Some (1, MSGWGINIT, \<lparr>msg_mwi = t_init, msg_mwr = t_mwr0\<rparr>)) =
      handlewginit t_prims t_mem t_env_f t_ifn_r (Some (Suc 0)) None
        \<lparr>msg_mwi = t_init, msg_mwr = t_mwr0\<rparr>"
    by (simp add: handleifnmsg_def findifnpeerbyid_def t_ifn_r_def)
  from wi [where peer = "Some (Suc 0)"] f h have 2: "fst (handleifnmsg t_prims t_mem t_env_f t_ifn_r
      (Some (1, MSGWGINIT, \<lparr>msg_mwi = t_init, msg_mwr = t_mwr0\<rparr>))) = Return (- 1)"
    by simp
  from wi [where peer = None] have 3: "fst (serv_event t_prims t_mem t_env_f 9 [t_ifn_r] 4 False None
      (Some (1, MSGWGINIT, \<lparr>msg_mwi = t_init, msg_mwr = t_mwr0\<rparr>))) = None"
    by simp
  from w [where ident = 9 and prx = None and irx = None and peer = None] f k
  have 4: "fst (handleproxymsg t_prims t_mem t_env_f [t_ifn_r]
     (Some (0, t_zero16, t_zero16, MSGWGINIT, \<lparr>msg_mwi = t_init, msg_mwr = t_mwr0\<rparr>))) =
     Return (- 1)"
    and 5: "fst (serv_event t_prims t_mem t_env_f 9 [t_ifn_r] 9 False
     (Some (0, t_zero16, t_zero16, MSGWGINIT, \<lparr>msg_mwi = t_init, msg_mwr = t_mwr0\<rparr>)) None) =
     None"
    and 6: "fst (serv_event t_prims t_mem t_env_f 9 [t_ifn_r] 9 False None None) = None"
    by simp_all
  from mk f k 1 2 3 4 5 6 t_handlewginit show ?thesis by simp
qed

text \<open>
  The claim as stated fails: the initiation of the handshake authenticates at the
  responder, and with working sends the session keys and the response are sent; when
  the sends fail, \<open>handlewginit\<close> returns -1 where the claim has the process exit, and
  after the same message from the interface the loop of \<open>enclave_serv\<close> goes on.
\<close>

theorem send_failure_counterexample:
  "handlewginit t_prims t_mem t_env_r t_ifn_r None None \<lparr>msg_mwi = t_init, msg_mwr = t_mwr0\<rparr> =
    (Return 0, t_ifn_r2,
     [(4, 1, MSGSESSKEYS, PSessKeys \<lparr>msk_sessid = 22136, msk_peersessid = 4660,
         msk_sendkey = q_s1, msk_recvkey = q_s0\<rparr>),
      (4, 1, MSGWGRESP, PResp t_resp)]) \<and>
   e_send t_env_f MSGSESSKEYS = - 1 \<and> e_send t_env_f MSGWGRESP = - 1 \<and>
   handlewginit t_prims t_mem t_env_f t_ifn_r None None \<lparr>msg_mwi = t_init, msg_mwr = t_mwr0\<rparr> =
     (Return (- 1), t_ifn_r2, []) \<and>
   Return (- 1) \<noteq> Exit 1 \<and>
   serv_event t_prims t_mem t_env_f 9 [t_ifn_r] 4 False None
     (Some (1, MSGWGINIT, \<lparr>msg_mwi = t_init, msg_mwr = t_mwr0\<rparr>)) = (None, [t_ifn_r2], [])"
proof -
  have h: "handlewginit t_prims t_mem t_env_f t_ifn_r (Some (Suc 0)) None
      \<lparr>msg_mwi = t_init, msg_mwr = t_mwr0\<rparr> = (Return (- 1), t_ifn_r2, [])"
    by (simp add: handlewginit_def hs_defs t_recs t_leaves)
  have p: "ifn_port t_ifn_r = 4" "findifnpeerbyid t_ifn_r 1 = Some (Suc 0)"
    by (simp_all add: findifnpeerbyid_def t_ifn_r_def)
  have s: "serv_event t_prims t_mem t_env_f 9 [t_ifn_r] 4 False None
     (Some (1, MSGWGINIT, \<lparr>msg_mwi = t_init, msg_mwr = t_mwr0\<rparr>)) = (None, [t_ifn_r2], [])"
    by (simp add: serv_event_def handleifnmsg_def p h goes_on_def)
  from t_handlewginit t_handlewginit_f s show ?thesis by (simp add: t_env_f_def)
qed

section \<open>Peer ids after configuration\<close>

lemma recvpeers_ids:
  "recvpeers pr mm junk privkey n peerssize m msgs = Some (ps, rest) \<Longrightarrow>
   map (\<lambda>p. unat (p_id p)) ps = [m..<peerssize]"
proof (induction pr mm junk privkey n peerssize m msgs arbitrary: ps rest rule: recvpeers.induct)
  case (1 pr mm junk privkey n peerssize m msgs)
  show ?case
  proof (cases "m < peerssize")
    case False
    with "1.prems" show ?thesis
      by (subst (asm) recvpeers.simps) (simp del: recvpeers.simps)
  next
    case True
    from "1.prems" True obtain sp rest0 ps0 where
      msgs: "msgs = SPEER sp # rest0"
      and g: "unat (sp_ifnid sp) = n \<and> unat (sp_peerid sp) = m"
      and r: "recvpeers pr mm junk privkey n peerssize (m + 1) rest0 = Some (ps0, rest)"
      and ps: "ps = \<lparr>p_id = of_nat m, p_pubkey = sp_peerkey sp,
                  p_pubkeyhash = appendhash pr (m_considhash mm) (sp_peerkey sp),
                  p_mac1key = sp_mac1key sp,
                  p_dhsecret = snd (dh pr privkey (sp_peerkey sp)),
                  p_psk = sp_psk sp, p_hs = junk n m,
                  p_recvts = replicate 12 0\<rparr> # ps0"
      by (subst (asm) recvpeers.simps)
        (auto simp del: recvpeers.simps split: list.splits smsg.splits if_splits option.splits)
    from "1.IH" [OF True msgs refl g r] have "map (\<lambda>p. unat (p_id p)) ps0 = [m + 1..<peerssize]" .
    moreover from g have "unat (of_nat m :: 32 word) = m" by auto
    ultimately show ?thesis using True ps by (simp add: upt_conv_Cons)
  qed
qed

lemma recvifns_ids:
  "recvifns pr mm junk ifnvsize n msgs = Some (is, rest) \<Longrightarrow> ifn \<in> set is \<Longrightarrow> ids_dense ifn"
proof (induction pr mm junk ifnvsize n msgs arbitrary: "is" rest rule: recvifns.induct)
  case (1 pr mm junk ifnvsize n msgs)
  show ?case
  proof (cases "n < ifnvsize")
    case False
    with "1.prems" show ?thesis
      by (subst (asm) recvifns.simps) (simp del: recvifns.simps recvpeers.simps)
  next
    case True
    from "1.prems"(1) True obtain sf rest0 ps rest1 is0 where
      msgs: "msgs = SIFN sf # rest0"
      and g: "n = unat (sf_ifnid sf)"
      and p: "recvpeers pr mm junk (sf_privkey sf) n (sf_npeers sf) 0 rest0 = Some (ps, rest1)"
      and r: "recvifns pr mm junk ifnvsize (n + 1) rest1 = Some (is0, rest)"
      and i: "is = \<lparr>ifn_id = sf_ifnid sf, ifn_port = sf_ifnport sf,
                  ifn_ifname = sf_ifname sf, ifn_privkey = sf_privkey sf,
                  ifn_pubkey = sf_pubkey sf, ifn_pubkeyhash = sf_pubkeyhash sf,
                  ifn_mac1key = sf_mac1key sf, ifn_cookiekey = sf_cookiekey sf,
                  ifn_peers = ps\<rparr> # is0"
      by (subst (asm) recvifns.simps)
        (auto simp del: recvifns.simps recvpeers.simps
          split: list.splits smsg.splits if_splits option.splits)
    from recvpeers_ids [OF p] have d: "map (\<lambda>p. unat (p_id p)) ps = [0..<sf_npeers sf]" .
    then have "length (map (\<lambda>p. unat (p_id p)) ps) = length [0..<sf_npeers sf]" by simp
    then have l: "length ps = sf_npeers sf" by simp
    from "1.prems"(2) i consider "ifn = \<lparr>ifn_id = sf_ifnid sf, ifn_port = sf_ifnport sf,
                  ifn_ifname = sf_ifname sf, ifn_privkey = sf_privkey sf,
                  ifn_pubkey = sf_pubkey sf, ifn_pubkeyhash = sf_pubkeyhash sf,
                  ifn_mac1key = sf_mac1key sf, ifn_cookiekey = sf_cookiekey sf,
                  ifn_peers = ps\<rparr>" | "ifn \<in> set is0"
      by auto
    then show ?thesis
    proof cases
      case 1
      with d l show ?thesis by (simp add: ids_dense_def)
    next
      case 2
      from "1.IH" [OF True msgs refl g p refl r 2] show ?thesis .
    qed
  qed
qed

lemma recvconfig_ids:
  assumes "recvconfig pr mm junk msgs = Some en" "ifn \<in> set (en_ifnv en)"
  shows "ids_dense ifn"
proof -
  from assms(1) obtain si :: sinit and rest rest' where
    "recvifns pr mm junk (si_nifns si) 0 rest = Some (en_ifnv en, rest')"
    by (auto simp: recvconfig_def simp del: recvifns.simps recvpeers.simps
        split: list.splits smsg.splits option.splits)
  from recvifns_ids [OF this assms(2)] show ?thesis .
qed

text \<open>
  C10. A message of an interface whose peer id is not below the number of peers of
  that interface makes \<open>handleifnmsg\<close> return -1, whatever its type and content, the
  interface unchanged and nothing sent. For a smaller id \<open>findifnpeerbyid\<close> yields the
  peer at the index \<open>peerid\<close>; for an interface of a configuration that \<open>recvconfig\<close>
  has read, the ids are the indices (\<open>ids_dense\<close>), the field \<open>id\<close> of that peer is
  \<open>peerid\<close>, and it is the peer \<open>handlewginit\<close> and \<open>handlewgresp\<close> are called with.
\<close>

theorem config_peer_ids:
  assumes "recvconfig pr mm junk msgs = Some en" and "ifn \<in> set (en_ifnv en)"
  shows "ids_dense ifn \<and>
    (length (ifn_peers ifn) \<le> unat peerid \<longrightarrow>
       handleifnmsg pr m e ifn (Some (peerid, mt, msg)) = (Return (- 1), ifn, [])) \<and>
    (unat peerid < length (ifn_peers ifn) \<longrightarrow>
       findifnpeerbyid ifn peerid = Some (unat peerid) \<and>
       p_id (getpeer ifn (unat peerid)) = peerid \<and>
       handleifnmsg pr m e ifn (Some (peerid, MSGWGINIT, msg)) =
         handlewginit pr m e ifn (Some (unat peerid)) None msg \<and>
       handleifnmsg pr m e ifn (Some (peerid, MSGWGRESP, msg)) =
         handlewgresp pr m e ifn (Some (unat peerid)) None msg)"
proof -
  from recvconfig_ids [OF assms] have d: "ids_dense ifn" .
  have a: "length (ifn_peers ifn) \<le> unat peerid \<longrightarrow>
       handleifnmsg pr m e ifn (Some (peerid, mt, msg)) = (Return (- 1), ifn, [])"
    by (simp add: handleifnmsg_def findifnpeerbyid_def)
  have b: "unat peerid < length (ifn_peers ifn) \<longrightarrow>
       findifnpeerbyid ifn peerid = Some (unat peerid) \<and>
       handleifnmsg pr m e ifn (Some (peerid, MSGWGINIT, msg)) =
         handlewginit pr m e ifn (Some (unat peerid)) None msg \<and>
       handleifnmsg pr m e ifn (Some (peerid, MSGWGRESP, msg)) =
         handlewgresp pr m e ifn (Some (unat peerid)) None msg"
    by (simp add: handleifnmsg_def findifnpeerbyid_def)
  have c: "unat peerid < length (ifn_peers ifn) \<longrightarrow> p_id (getpeer ifn (unat peerid)) = peerid"
  proof
    assume "unat peerid < length (ifn_peers ifn)"
    from ids_dense_nth [OF d this] show "p_id (getpeer ifn (unat peerid)) = peerid"
      by (simp add: word_unat_eq_iff)
  qed
  from d a b c show ?thesis by blast
qed

text \<open>The instance: \<open>recvconfig\<close> on the configuration of the responder yields the
  interface \<open>t_ifn_r\<close> with its two peers; the id 2 is rejected, the id 1 is the peer
  at index 1.\<close>

theorem config_peer_ids_witness:
  "recvconfig t_prims t_mem (\<lambda>n m. t_junk) t_cfg = Some t_enclave \<and>
   t_ifn_r \<in> set (en_ifnv t_enclave) \<and>
   ids_dense t_ifn_r \<and>
   length (ifn_peers t_ifn_r) = 2 \<and>
   handleifnmsg t_prims t_mem t_env_r t_ifn_r
     (Some (2, MSGWGINIT, \<lparr>msg_mwi = t_init, msg_mwr = t_mwr0\<rparr>)) = (Return (- 1), t_ifn_r, []) \<and>
   findifnpeerbyid t_ifn_r 1 = Some 1 \<and>
   p_id (getpeer t_ifn_r 1) = 1"
proof -
  have r: "recvconfig t_prims t_mem (\<lambda>n m. t_junk) t_cfg = Some t_enclave"
    by (simp add: recvconfig_def t_cfg_def t_enclave_def t_ifn_r_def t_peer_x_def t_peer_i_def
        t_mem_def t_zero12_def [symmetric] t_leaves)
  have s: "t_ifn_r \<in> set (en_ifnv t_enclave)" by (simp add: t_enclave_def)
  have l: "length (ifn_peers t_ifn_r) = 2" by (simp add: t_ifn_r_def)
  note w = config_peer_ids [OF r s, where m = t_mem and e = t_env_r
      and msg = "\<lparr>msg_mwi = t_init, msg_mwr = t_mwr0\<rparr>"]
  from w [where peerid = 2 and mt = MSGWGINIT] l
  have 1: "ids_dense t_ifn_r"
    "handleifnmsg t_prims t_mem t_env_r t_ifn_r
       (Some (2, MSGWGINIT, \<lparr>msg_mwi = t_init, msg_mwr = t_mwr0\<rparr>)) = (Return (- 1), t_ifn_r, [])"
    by simp_all
  from w [where peerid = 1 and mt = MSGWGINIT] l
  have 2: "findifnpeerbyid t_ifn_r 1 = Some 1" "p_id (getpeer t_ifn_r 1) = 1"
    by simp_all
  from r s l 1 2 show ?thesis by simp
qed

end
